theory Spec2Isabelle
  imports Complex_Main "HOL-Library.Signed_Division"
begin

section \<open>Booking and wallet settlement core of cmm\_server\<close>

text \<open>
  A shallow embedding of the booking use case (\<^verbatim>\<open>bookingUsecase\<close>), the wallet use case
  (\<^verbatim>\<open>walletUsecase\<close>), \<^verbatim>\<open>voucherUsecase.ApplyVoucher\<close> and of the repository methods
  they call. The relational store is a record of tables, every table a list of rows in
  insertion order. Conventions of the embedding:
  \<^item> a \<^verbatim>\<open>uuid.UUID\<close> is a natural number; what \<^verbatim>\<open>uuid.New()\<close> and \<^verbatim>\<open>time.Now()\<close> return is
    read from an environment, indexed by the position of the call in the text of the use case;
  \<^item> a \<^verbatim>\<open>time.Time\<close> is an instant in nanoseconds, a \<^verbatim>\<open>time.Duration\<close> a 64-bit count of
    nanoseconds: \<^verbatim>\<open>Time.Sub\<close> saturates at the ends of that range, as Go's does;
  \<^item> a \<^verbatim>\<open>float64\<close> amount is a real number: rounding is not modelled;
  \<^item> a Go \<^verbatim>\<open>error\<close> is a value of the datatype \<open>error\<close>; a method returning only an error
    returns \<open>error option\<close> (\<open>None\<close> is \<^verbatim>\<open>nil\<close>), one returning a value and an error returns
    \<open>error + 'a\<close>;
  \<^item> every store call can fail with an error of the database itself; which calls do is read
    from the environment, and a failed call changes no table;
  \<^item> the logger is the list of the messages written so far.
\<close>

subsection \<open>Time\<close>

type_synonym uuid = nat
type_synonym time = int
type_synonym duration = int

definition minDuration :: duration where
  "minDuration = - (2 ^ 63)"

definition maxDuration :: duration where
  "maxDuration = 2 ^ 63 - 1"

definition Hour :: duration where
  "Hour = 60 * (60 * (1000 * (1000 * 1000)))"

text \<open>\<^verbatim>\<open>t.Sub(u)\<close>: the duration \<open>t - u\<close>, or the largest (smallest) duration when \<open>t - u\<close>
  does not fit.\<close>

definition Sub :: "time \<Rightarrow> time \<Rightarrow> duration" where
  "Sub t u =
     (let d = t - u
      in if maxDuration < d then maxDuration
         else if d < minDuration then minDuration
         else d)"

text \<open>\<^verbatim>\<open>d.Hours()\<close>: \<^verbatim>\<open>hour := d / Hour; nsec := d % Hour;
  return float64(hour) + float64(nsec)/(60*60*1e9)\<close>, with Go's truncating division.\<close>

definition Hours :: "duration \<Rightarrow> real" where
  "Hours d =
     (let hour = d sdiv Hour; nsec = d smod Hour
      in real_of_int hour + real_of_int nsec / (60 * 60 * 1000000000))"

subsection \<open>Rows, requests and responses\<close>

text \<open>Modelled from the spec: the rows of the \<^verbatim>\<open>entity\<close> package (\<^verbatim>\<open>MeetingRoom\<close>,
  \<^verbatim>\<open>Booking\<close>, \<^verbatim>\<open>Voucher\<close>, \<^verbatim>\<open>Wallet\<close>, \<^verbatim>\<open>Topup\<close>, \<^verbatim>\<open>Transaction\<close>), whose declarations
  are not among the sources. The fields are those of the specification's data model that the
  use cases and repositories read and write, under the names the source gives them. A booking
  without voucher has the zero \<^verbatim>\<open>VoucherID\<close>, here \<open>None\<close>.\<close>

record meeting_room =
  mr_ID :: uuid
  mr_Name :: string
  mr_PricePerHour :: real
  mr_Available :: bool

record booking =
  bk_ID :: uuid
  bk_CustomerID :: uuid
  bk_MeetingRoomID :: uuid
  bk_StartTime :: time
  bk_EndTime :: time
  bk_TotalPrice :: real
  bk_VoucherID :: "uuid option"
  bk_Status :: string
  bk_CreatedAt :: time

record voucher =
  v_ID :: uuid
  v_Code :: string
  v_DiscountPercent :: int
  v_MaxUses :: int
  v_UsedCount :: int
  v_ValidFrom :: time
  v_ValidTo :: time

record wallet =
  w_UserID :: uuid
  w_Balance :: real

record topup =
  tp_ID :: uuid
  tp_UserID :: uuid
  tp_Amount :: real
  tp_Method :: string
  tp_Status :: string
  tp_CreatedAt :: time

record transaction =
  tx_ID :: uuid
  tx_UserID :: uuid
  tx_ServiceID :: int
  tx_ServiceRefID :: uuid
  tx_Amount :: real
  tx_PaidAt :: time
  tx_Status :: string

text \<open>\<^verbatim>\<open>request.CreateBooking\<close>, \<^verbatim>\<open>request.TopupWallet\<close>, \<^verbatim>\<open>request.ApplyVoucher\<close>.\<close>

record create_booking =
  rq_MeetingRoomID :: uuid
  rq_StartTime :: time
  rq_EndTime :: time
  rq_VoucherCode :: string

record topup_wallet =
  rq_Amount :: real
  rq_Method :: string

record apply_voucher =
  av_VoucherCode :: string
  av_Amount :: real

text \<open>\<^verbatim>\<open>response.BookingResponse\<close> (its \<^verbatim>\<open>ShopName\<close> is never set by the booking use case),
  \<^verbatim>\<open>response.TopupResponse\<close>, \<^verbatim>\<open>response.VoucherCalculation\<close>.\<close>

record booking_response =
  rs_ID :: uuid
  rs_CustomerID :: uuid
  rs_MeetingRoomID :: uuid
  rs_RoomName :: string
  rs_StartTime :: time
  rs_EndTime :: time
  rs_TotalPrice :: real
  rs_VoucherID :: "uuid option"
  rs_Status :: string
  rs_CreatedAt :: time

record topup_response =
  tr_ID :: uuid
  tr_UserID :: uuid
  tr_Amount :: real
  tr_Method :: string
  tr_Status :: string
  tr_CreatedAt :: time

record voucher_calculation =
  vc_OriginalAmount :: real
  vc_DiscountAmount :: real
  vc_FinalAmount :: real
  vc_DiscountPercent :: int
  vc_VoucherCode :: string

subsection \<open>Errors, environment, store\<close>

text \<open>The errors of the use cases, named as the specification names them; the message of
  each in the source:
  \<^item> \<open>InvalidTimeRange\<close>: "end time must be after start time"
  \<^item> \<open>PastBooking\<close>: "cannot book in the past"
  \<^item> \<open>RoomNotFound\<close>: "meeting room not found"
  \<^item> \<open>RoomUnavailable\<close>: "meeting room is not available"
  \<^item> \<open>SlotConflict\<close>: "meeting room is already booked for this time slot"
  \<^item> \<open>InvalidVoucher\<close>: "invalid voucher code"
  \<^item> \<open>VoucherExpired\<close>: "voucher is not valid at this time"
  \<^item> \<open>VoucherExhausted\<close>: "voucher has reached maximum uses"
  \<^item> \<open>WalletNotFound\<close>: "wallet not found"
  \<^item> \<open>InsufficientBalance\<close>: "insufficient balance"
  \<^item> \<open>PaymentFailed\<close>: "payment failed"
  \<^item> \<open>BookingNotFound\<close>: "booking not found"
  \<^item> \<open>Unauthorized\<close>: "unauthorized to cancel this booking"
  \<^item> \<open>AlreadyCancelled\<close>: "booking is already cancelled"
  \<^item> \<open>TooLateToCancel\<close>: "cannot cancel booking less than 24 hours before start time"
  \<^item> \<open>RefundFailed\<close>: "failed to process refund"
  \<^item> \<open>TopupNotFound\<close>: "topup not found"
  \<^item> \<open>NotPending\<close>: "topup is not pending"
  \<^item> \<open>CreditFailed\<close>: "failed to update wallet balance"
  \<^item> \<open>ErrRecordNotFound\<close>: \<^verbatim>\<open>gorm.ErrRecordNotFound\<close>
  \<^item> \<open>DbError\<close>: any other error of the database.\<close>

datatype error =
    InvalidTimeRange | PastBooking | RoomNotFound | RoomUnavailable | SlotConflict
  | InvalidVoucher | VoucherExpired | VoucherExhausted | WalletNotFound
  | InsufficientBalance | PaymentFailed
  | BookingNotFound | Unauthorized | AlreadyCancelled | TooLateToCancel | RefundFailed
  | TopupNotFound | NotPending | CreditFailed
  | ErrRecordNotFound | DbError

text \<open>The repository methods the use cases call; a fault plan says which of them fail with
  an error of the database.\<close>

datatype repo_call =
    Call_GetMeetingRoomByID | Call_CheckRoomAvailability | Call_GetVoucherByCode
  | Call_IncrementUsedCount | Call_GetWalletByUserID | Call_CreateBooking
  | Call_DeductBalance | Call_CreateTransaction | Call_GetBookingByID
  | Call_CancelBooking | Call_UpdateBalance | Call_GetTopupByID
  | Call_UpdateTopupStatus | Call_CreateTopup

record env =
  fails :: "repo_call \<Rightarrow> bool"
  time_Now :: "nat \<Rightarrow> time"
  uuid_New :: "nat \<Rightarrow> uuid"

record world =
  meeting_rooms :: "meeting_room list"
  bookings :: "booking list"
  vouchers :: "voucher list"
  wallets :: "wallet list"
  topups :: "topup list"
  transactions :: "transaction list"
  logs :: "string list"

text \<open>\<^verbatim>\<open>logger.Info\<close>, \<^verbatim>\<open>log.Errorw\<close>: the message is appended to the log.\<close>

definition logger_Info :: "string \<Rightarrow> world \<Rightarrow> world" where
  "logger_Info msg s = s\<lparr>logs := logs s @ [msg]\<rparr>"

definition logger_Errorw :: "string \<Rightarrow> world \<Rightarrow> world" where
  "logger_Errorw msg s = s\<lparr>logs := logs s @ [msg]\<rparr>"

subsection \<open>The query builder\<close>

text \<open>What the use cases rely on from gorm:
  \<^item> \<^verbatim>\<open>Where(p).First(&row)\<close> reads the first row that satisfies \<open>p\<close>, and fails with
    \<^verbatim>\<open>ErrRecordNotFound\<close> when there is none (gorm orders by primary key, the model by
    insertion: the same row wherever at most one row matches);
  \<^item> \<^verbatim>\<open>Model(..).Where(p).Update(column, value)\<close> rewrites every row that satisfies \<open>p\<close>;
    that no row does is not an error (only \<^verbatim>\<open>RowsAffected\<close> is 0, which no repository
    method reads);
  \<^item> \<^verbatim>\<open>Where(p).Count(&n)\<close> counts the rows that satisfy \<open>p\<close>;
  \<^item> \<^verbatim>\<open>Create(row)\<close> inserts the row.\<close>

definition gorm_First :: "('a \<Rightarrow> bool) \<Rightarrow> 'a list \<Rightarrow> error + 'a" where
  "gorm_First p rows = (case find p rows of None \<Rightarrow> Inl ErrRecordNotFound | Some r \<Rightarrow> Inr r)"

definition gorm_Update :: "('a \<Rightarrow> bool) \<Rightarrow> ('a \<Rightarrow> 'a) \<Rightarrow> 'a list \<Rightarrow> 'a list" where
  "gorm_Update p f rows = map (\<lambda>r. if p r then f r else r) rows"

definition gorm_Count :: "('a \<Rightarrow> bool) \<Rightarrow> 'a list \<Rightarrow> int" where
  "gorm_Count p rows = int (length (filter p rows))"

definition gorm_Create :: "'a \<Rightarrow> 'a list \<Rightarrow> 'a list" where
  "gorm_Create r rows = rows @ [r]"

subsection \<open>Repositories\<close>

text \<open>\<^verbatim>\<open>meetingRoomRepo.GetMeetingRoomByID\<close>\<close>

definition GetMeetingRoomByID :: "env \<Rightarrow> uuid \<Rightarrow> world \<Rightarrow> (error + meeting_room) \<times> world" where
  "GetMeetingRoomByID e ID s =
     (let s1 = logger_Info ''GetMeetingRoomByID repository method called'' s
      in if fails e Call_GetMeetingRoomByID then (Inl DbError, s1)
         else (gorm_First (\<lambda>r. mr_ID r = ID) (meeting_rooms s1), s1))"

text \<open>\<^verbatim>\<open>bookingRepo.CreateBooking\<close>\<close>

definition repo_CreateBooking :: "env \<Rightarrow> booking \<Rightarrow> world \<Rightarrow> error option \<times> world" where
  "repo_CreateBooking e booking s =
     (let s1 = logger_Info ''CreateBooking repository method called'' s
      in if fails e Call_CreateBooking then (Some DbError, s1)
         else (None, s1\<lparr>bookings := gorm_Create booking (bookings s1)\<rparr>))"

text \<open>\<^verbatim>\<open>bookingRepo.GetBookingByID\<close>\<close>

definition GetBookingByID :: "env \<Rightarrow> uuid \<Rightarrow> world \<Rightarrow> (error + booking) \<times> world" where
  "GetBookingByID e ID s =
     (let s1 = logger_Info ''GetBookingByID repository method called'' s
      in if fails e Call_GetBookingByID then (Inl DbError, s1)
         else (gorm_First (\<lambda>b. bk_ID b = ID) (bookings s1), s1))"

text \<open>The third condition of the availability query, on a row and the two placeholders' values:
  \<^verbatim>\<open>(start_time < ? AND end_time > ?) OR (start_time < ? AND end_time > ?) OR
  (start_time >= ? AND end_time <= ?)\<close> with \<^verbatim>\<open>endTime, startTime, startTime, endTime,
  startTime, endTime\<close>.\<close>

definition slot_condition :: "booking \<Rightarrow> time \<Rightarrow> time \<Rightarrow> bool" where
  "slot_condition b startTime endTime =
     ((bk_StartTime b < endTime \<and> bk_EndTime b > startTime)
      \<or> (bk_StartTime b < startTime \<and> bk_EndTime b > endTime)
      \<or> (bk_StartTime b \<ge> startTime \<and> bk_EndTime b \<le> endTime))"

text \<open>\<^verbatim>\<open>bookingRepo.CheckRoomAvailability\<close>: the three \<^verbatim>\<open>Where\<close> clauses are joined by AND.\<close>

definition CheckRoomAvailability ::
    "env \<Rightarrow> uuid \<Rightarrow> time \<Rightarrow> time \<Rightarrow> world \<Rightarrow> (error + bool) \<times> world" where
  "CheckRoomAvailability e roomID startTime endTime s =
     (let s1 = logger_Info ''CheckRoomAvailability repository method called'' s
      in if fails e Call_CheckRoomAvailability then (Inl DbError, s1)
         else let count = gorm_Count
                    (\<lambda>b. bk_MeetingRoomID b = roomID \<and> bk_Status b \<noteq> ''cancelled''
                         \<and> slot_condition b startTime endTime)
                    (bookings s1)
              in (Inr (count = 0), s1))"

text \<open>\<^verbatim>\<open>bookingRepo.CancelBooking\<close>\<close>

definition repo_CancelBooking :: "env \<Rightarrow> uuid \<Rightarrow> world \<Rightarrow> error option \<times> world" where
  "repo_CancelBooking e ID s =
     (let s1 = logger_Info ''CancelBooking repository method called'' s
      in if fails e Call_CancelBooking then (Some DbError, s1)
         else (None, s1\<lparr>bookings :=
                 gorm_Update (\<lambda>b. bk_ID b = ID) (\<lambda>b. b\<lparr>bk_Status := ''cancelled''\<rparr>) (bookings s1)\<rparr>))"

text \<open>\<^verbatim>\<open>voucherRepo.GetVoucherByCode\<close>\<close>

definition GetVoucherByCode :: "env \<Rightarrow> string \<Rightarrow> world \<Rightarrow> (error + voucher) \<times> world" where
  "GetVoucherByCode e code s =
     (let s1 = logger_Info ''GetVoucherByCode repository method called'' s
      in if fails e Call_GetVoucherByCode then (Inl DbError, s1)
         else (gorm_First (\<lambda>v. v_Code v = code) (vouchers s1), s1))"

text \<open>\<^verbatim>\<open>voucherRepo.IncrementUsedCount\<close>\<close>

definition IncrementUsedCount :: "env \<Rightarrow> uuid \<Rightarrow> world \<Rightarrow> error option \<times> world" where
  "IncrementUsedCount e ID s =
     (let s1 = logger_Info ''IncrementUsedCount repository method called'' s
      in if fails e Call_IncrementUsedCount then (Some DbError, s1)
         else (None, s1\<lparr>vouchers :=
                 gorm_Update (\<lambda>v. v_ID v = ID) (\<lambda>v. v\<lparr>v_UsedCount := v_UsedCount v + 1\<rparr>) (vouchers s1)\<rparr>))"

text \<open>\<^verbatim>\<open>walletRepo.GetWalletByUserID\<close>\<close>

definition GetWalletByUserID :: "env \<Rightarrow> uuid \<Rightarrow> world \<Rightarrow> (error + wallet) \<times> world" where
  "GetWalletByUserID e userID s =
     (let s1 = logger_Info ''GetWalletByUserID repository method called'' s
      in if fails e Call_GetWalletByUserID then (Inl DbError, s1)
         else (gorm_First (\<lambda>w. w_UserID w = userID) (wallets s1), s1))"

text \<open>\<^verbatim>\<open>walletRepo.UpdateBalance\<close>\<close>

definition UpdateBalance :: "env \<Rightarrow> uuid \<Rightarrow> real \<Rightarrow> world \<Rightarrow> error option \<times> world" where
  "UpdateBalance e userID amount s =
     (let s1 = logger_Info ''UpdateBalance repository method called'' s
      in if fails e Call_UpdateBalance then (Some DbError, s1)
         else (None, s1\<lparr>wallets :=
                 gorm_Update (\<lambda>w. w_UserID w = userID)
                   (\<lambda>w. w\<lparr>w_Balance := w_Balance w + amount\<rparr>) (wallets s1)\<rparr>))"

text \<open>\<^verbatim>\<open>walletRepo.DeductBalance\<close>\<close>

definition DeductBalance :: "env \<Rightarrow> uuid \<Rightarrow> real \<Rightarrow> world \<Rightarrow> error option \<times> world" where
  "DeductBalance e userID amount s =
     (let s1 = logger_Info ''DeductBalance repository method called'' s
      in if fails e Call_DeductBalance then (Some DbError, s1)
         else (None, s1\<lparr>wallets :=
                 gorm_Update (\<lambda>w. w_UserID w = userID \<and> w_Balance w \<ge> amount)
                   (\<lambda>w. w\<lparr>w_Balance := w_Balance w - amount\<rparr>) (wallets s1)\<rparr>))"

text \<open>\<^verbatim>\<open>walletRepo.CreateTopup\<close>\<close>

definition repo_CreateTopup :: "env \<Rightarrow> topup \<Rightarrow> world \<Rightarrow> error option \<times> world" where
  "repo_CreateTopup e topup s =
     (let s1 = logger_Info ''CreateTopup repository method called'' s
      in if fails e Call_CreateTopup then (Some DbError, s1)
         else (None, s1\<lparr>topups := gorm_Create topup (topups s1)\<rparr>))"

text \<open>\<^verbatim>\<open>walletRepo.GetTopupByID\<close>\<close>

definition GetTopupByID :: "env \<Rightarrow> uuid \<Rightarrow> world \<Rightarrow> (error + topup) \<times> world" where
  "GetTopupByID e ID s =
     (let s1 = logger_Info ''GetTopupByID repository method called'' s
      in if fails e Call_GetTopupByID then (Inl DbError, s1)
         else (gorm_First (\<lambda>t. tp_ID t = ID) (topups s1), s1))"

text \<open>\<^verbatim>\<open>walletRepo.UpdateTopupStatus\<close>\<close>

definition UpdateTopupStatus :: "env \<Rightarrow> uuid \<Rightarrow> string \<Rightarrow> world \<Rightarrow> error option \<times> world" where
  "UpdateTopupStatus e ID status s =
     (let s1 = logger_Info ''UpdateTopupStatus repository method called'' s
      in if fails e Call_UpdateTopupStatus then (Some DbError, s1)
         else (None, s1\<lparr>topups :=
                 gorm_Update (\<lambda>t. tp_ID t = ID) (\<lambda>t. t\<lparr>tp_Status := status\<rparr>) (topups s1)\<rparr>))"

text \<open>\<^verbatim>\<open>transactionRepo.CreateTransaction\<close>\<close>

definition CreateTransaction :: "env \<Rightarrow> transaction \<Rightarrow> world \<Rightarrow> error option \<times> world" where
  "CreateTransaction e transaction s =
     (let s1 = logger_Info ''CreateTransaction repository method called'' s
      in if fails e Call_CreateTransaction then (Some DbError, s1)
         else (None, s1\<lparr>transactions := gorm_Create transaction (transactions s1)\<rparr>))"

subsection \<open>The booking use case\<close>

text \<open>\<^verbatim>\<open>bookingUsecase.CreateBooking\<close>, the block "Apply voucher if provided": from a total
  price, the discounted price and the voucher applied. \<^verbatim>\<open>time.Now()\<close> here is the second in
  the text of the use case.\<close>

definition apply_voucher_if_provided ::
    "env \<Rightarrow> create_booking \<Rightarrow> real \<Rightarrow> world \<Rightarrow> (error + real \<times> uuid option) \<times> world" where
  "apply_voucher_if_provided e req totalPrice s =
     (if rq_VoucherCode req \<noteq> [] then
        (case GetVoucherByCode e (rq_VoucherCode req) s of
           (Inl err, s1) \<Rightarrow> (Inl (if err = ErrRecordNotFound then InvalidVoucher else err), s1)
         | (Inr voucher, s1) \<Rightarrow>
             let now = time_Now e 1
             in if now < v_ValidFrom voucher \<or> now > v_ValidTo voucher then (Inl VoucherExpired, s1)
                else if v_MaxUses voucher > 0 \<and> v_UsedCount voucher \<ge> v_MaxUses voucher
                  then (Inl VoucherExhausted, s1)
                else
                  let discount = totalPrice * real_of_int (v_DiscountPercent voucher) / 100;
                      totalPrice = totalPrice - discount;
                      voucherID = Some (v_ID voucher)
                  in (case IncrementUsedCount e (v_ID voucher) s1 of
                        (Some err, s2) \<Rightarrow>
                          (Inr (totalPrice, voucherID),
                           logger_Errorw ''Failed to increment voucher usage'' s2)
                      | (None, s2) \<Rightarrow> (Inr (totalPrice, voucherID), s2)))
      else (Inr (totalPrice, None), s))"

text \<open>\<^verbatim>\<open>bookingUsecase.CreateBooking\<close>, from "Check wallet balance" to the end: the balance
  check, the insertion of the booking, the debit and the ledger entry.\<close>

definition pay_and_record ::
    "env \<Rightarrow> uuid \<Rightarrow> create_booking \<Rightarrow> meeting_room \<Rightarrow> real \<Rightarrow> uuid option \<Rightarrow> world
      \<Rightarrow> (error + booking_response) \<times> world" where
  "pay_and_record e customerID req room totalPrice voucherID s =
     (case GetWalletByUserID e customerID s of
        (Inl err, s1) \<Rightarrow> (Inl WalletNotFound, s1)
      | (Inr wallet, s1) \<Rightarrow>
          if w_Balance wallet < totalPrice then (Inl InsufficientBalance, s1)
          else
            let booking = \<lparr>bk_ID = uuid_New e 0, bk_CustomerID = customerID,
                    bk_MeetingRoomID = rq_MeetingRoomID req,
                    bk_StartTime = rq_StartTime req, bk_EndTime = rq_EndTime req,
                    bk_TotalPrice = totalPrice, bk_VoucherID = voucherID,
                    bk_Status = ''booked'', bk_CreatedAt = time_Now e 2\<rparr>
            in (case repo_CreateBooking e booking s1 of
                  (Some err, s2) \<Rightarrow> (Inl err, s2)
                | (None, s2) \<Rightarrow>
                    (case DeductBalance e customerID totalPrice s2 of
                       (Some err, s3) \<Rightarrow>
                         (Inl PaymentFailed, logger_Errorw ''Failed to deduct balance'' s3)
                     | (None, s3) \<Rightarrow>
                         let transaction = \<lparr>tx_ID = uuid_New e 1, tx_UserID = customerID,
                                 tx_ServiceID = 1, tx_ServiceRefID = bk_ID booking,
                                 tx_Amount = totalPrice, tx_PaidAt = time_Now e 3,
                                 tx_Status = ''completed''\<rparr>;
                             s5 = (case CreateTransaction e transaction s3 of
                                     (Some err, s4) \<Rightarrow>
                                       logger_Errorw ''Failed to create transaction'' s4
                                   | (None, s4) \<Rightarrow> s4)
                         in (Inr \<lparr>rs_ID = bk_ID booking, rs_CustomerID = bk_CustomerID booking,
                                  rs_MeetingRoomID = bk_MeetingRoomID booking,
                                  rs_RoomName = mr_Name room,
                                  rs_StartTime = bk_StartTime booking,
                                  rs_EndTime = bk_EndTime booking,
                                  rs_TotalPrice = bk_TotalPrice booking,
                                  rs_VoucherID = bk_VoucherID booking,
                                  rs_Status = bk_Status booking,
                                  rs_CreatedAt = bk_CreatedAt booking\<rparr>, s5))))"

text \<open>\<^verbatim>\<open>bookingUsecase.CreateBooking\<close>\<close>

definition CreateBooking ::
    "env \<Rightarrow> uuid \<Rightarrow> create_booking \<Rightarrow> world \<Rightarrow> (error + booking_response) \<times> world" where
  "CreateBooking e customerID req s0 =
     (let s = logger_Info ''CreateBooking usecase called'' s0
      in if rq_EndTime req < rq_StartTime req \<or> rq_EndTime req = rq_StartTime req
           then (Inl InvalidTimeRange, s)
         else if rq_StartTime req < time_Now e 0 then (Inl PastBooking, s)
         else
           (case GetMeetingRoomByID e (rq_MeetingRoomID req) s of
              (Inl err, s1) \<Rightarrow> (Inl (if err = ErrRecordNotFound then RoomNotFound else err), s1)
            | (Inr room, s1) \<Rightarrow>
                if \<not> mr_Available room then (Inl RoomUnavailable, s1)
                else
                  (case CheckRoomAvailability e (rq_MeetingRoomID req)
                          (rq_StartTime req) (rq_EndTime req) s1 of
                     (Inl err, s2) \<Rightarrow> (Inl err, s2)
                   | (Inr available, s2) \<Rightarrow>
                       if \<not> available then (Inl SlotConflict, s2)
                       else
                         let duration = Hours (Sub (rq_EndTime req) (rq_StartTime req));
                             totalPrice = mr_PricePerHour room * duration
                         in (case apply_voucher_if_provided e req totalPrice s2 of
                               (Inl err, s3) \<Rightarrow> (Inl err, s3)
                             | (Inr (totalPrice, voucherID), s3) \<Rightarrow>
                                 pay_and_record e customerID req room totalPrice voucherID s3))))"

text \<open>\<^verbatim>\<open>bookingUsecase.CancelBooking\<close>; \<^verbatim>\<open>time.Until(t)\<close> is \<^verbatim>\<open>t.Sub(time.Now())\<close>.\<close>

definition CancelBooking :: "env \<Rightarrow> uuid \<Rightarrow> uuid \<Rightarrow> world \<Rightarrow> error option \<times> world" where
  "CancelBooking e customerID bookingID s =
     (case GetBookingByID e bookingID s of
        (Inl err, s1) \<Rightarrow> (Some (if err = ErrRecordNotFound then BookingNotFound else err), s1)
      | (Inr booking, s1) \<Rightarrow>
          if bk_CustomerID booking \<noteq> customerID then (Some Unauthorized, s1)
          else if bk_Status booking = ''cancelled'' then (Some AlreadyCancelled, s1)
          else if Sub (bk_StartTime booking) (time_Now e 0) < 24 * Hour
            then (Some TooLateToCancel, s1)
          else
            (case repo_CancelBooking e bookingID s1 of
               (Some err, s2) \<Rightarrow> (Some err, s2)
             | (None, s2) \<Rightarrow>
                 (case UpdateBalance e customerID (bk_TotalPrice booking) s2 of
                    (Some err, s3) \<Rightarrow>
                      (Some RefundFailed, logger_Errorw ''Failed to refund balance'' s3)
                  | (None, s3) \<Rightarrow>
                      let transaction = \<lparr>tx_ID = uuid_New e 0, tx_UserID = customerID,
                              tx_ServiceID = 1, tx_ServiceRefID = bk_ID booking,
                              tx_Amount = - bk_TotalPrice booking, tx_PaidAt = time_Now e 1,
                              tx_Status = ''refunded''\<rparr>
                      in (case CreateTransaction e transaction s3 of
                            (Some err, s4) \<Rightarrow>
                              (None, logger_Errorw ''Failed to create refund transaction'' s4)
                          | (None, s4) \<Rightarrow> (None, s4)))))"

subsection \<open>The wallet use case\<close>

text \<open>\<^verbatim>\<open>walletUsecase.CreateTopup\<close>\<close>

definition CreateTopup ::
    "env \<Rightarrow> uuid \<Rightarrow> topup_wallet \<Rightarrow> world \<Rightarrow> (error + topup_response) \<times> world" where
  "CreateTopup e userID req s0 =
     (let s = logger_Info ''CreateTopup usecase called'' s0
      in case GetWalletByUserID e userID s of
           (Inl err, s1) \<Rightarrow> (Inl (if err = ErrRecordNotFound then WalletNotFound else err), s1)
         | (Inr wallet, s1) \<Rightarrow>
             let topup = \<lparr>tp_ID = uuid_New e 0, tp_UserID = userID, tp_Amount = rq_Amount req,
                     tp_Method = rq_Method req, tp_Status = ''pending'',
                     tp_CreatedAt = time_Now e 0\<rparr>
             in (case repo_CreateTopup e topup s1 of
                   (Some err, s2) \<Rightarrow> (Inl err, s2)
                 | (None, s2) \<Rightarrow>
                     (Inr \<lparr>tr_ID = tp_ID topup, tr_UserID = tp_UserID topup,
                           tr_Amount = tp_Amount topup, tr_Method = tp_Method topup,
                           tr_Status = tp_Status topup, tr_CreatedAt = tp_CreatedAt topup\<rparr>,
                      s2)))"

text \<open>\<^verbatim>\<open>walletUsecase.ConfirmTopup\<close>; the request carries the \<^verbatim>\<open>TopupID\<close> only.\<close>

definition ConfirmTopup :: "env \<Rightarrow> uuid \<Rightarrow> world \<Rightarrow> error option \<times> world" where
  "ConfirmTopup e topupID s0 =
     (let s = logger_Info ''ConfirmTopup usecase called'' s0
      in case GetTopupByID e topupID s of
           (Inl err, s1) \<Rightarrow> (Some (if err = ErrRecordNotFound then TopupNotFound else err), s1)
         | (Inr topup, s1) \<Rightarrow>
             if tp_Status topup \<noteq> ''pending'' then (Some NotPending, s1)
             else
               (case UpdateTopupStatus e topupID ''completed'' s1 of
                  (Some err, s2) \<Rightarrow> (Some err, s2)
                | (None, s2) \<Rightarrow>
                    (case UpdateBalance e (tp_UserID topup) (tp_Amount topup) s2 of
                       (Some err, s3) \<Rightarrow>
                         (Some CreditFailed, logger_Errorw ''Failed to update wallet balance'' s3)
                     | (None, s3) \<Rightarrow>
                         let transaction = \<lparr>tx_ID = uuid_New e 0, tx_UserID = tp_UserID topup,
                                 tx_ServiceID = 2, tx_ServiceRefID = tp_ID topup,
                                 tx_Amount = tp_Amount topup, tx_PaidAt = time_Now e 0,
                                 tx_Status = ''completed''\<rparr>
                         in (case CreateTransaction e transaction s3 of
                               (Some err, s4) \<Rightarrow>
                                 (None, logger_Errorw ''Failed to create transaction'' s4)
                             | (None, s4) \<Rightarrow> (None, s4)))))"

subsection \<open>The voucher use case\<close>

text \<open>\<^verbatim>\<open>voucherUsecase.ApplyVoucher\<close>\<close>

definition ApplyVoucher ::
    "env \<Rightarrow> apply_voucher \<Rightarrow> world \<Rightarrow> (error + voucher_calculation) \<times> world" where
  "ApplyVoucher e req s =
     (case GetVoucherByCode e (av_VoucherCode req) s of
        (Inl err, s1) \<Rightarrow> (Inl (if err = ErrRecordNotFound then InvalidVoucher else err), s1)
      | (Inr voucher, s1) \<Rightarrow>
          let now = time_Now e 0
          in if now < v_ValidFrom voucher \<or> now > v_ValidTo voucher then (Inl VoucherExpired, s1)
             else if v_MaxUses voucher > 0 \<and> v_UsedCount voucher \<ge> v_MaxUses voucher
               then (Inl VoucherExhausted, s1)
             else
               let discountAmount = av_Amount req * real_of_int (v_DiscountPercent voucher) / 100;
                   finalAmount = av_Amount req - discountAmount
               in (Inr \<lparr>vc_OriginalAmount = av_Amount req, vc_DiscountAmount = discountAmount,
                        vc_FinalAmount = finalAmount,
                        vc_DiscountPercent = v_DiscountPercent voucher,
                        vc_VoucherCode = v_Code voucher\<rparr>, s1))"

subsection \<open>Requests served one after the other\<close>

text \<open>A request names the use case, the environment it runs in and its arguments; the
  server handles the requests of a list in order, each on the store the previous one left.\<close>

datatype request =
    Req_CreateBooking env uuid create_booking
  | Req_CancelBooking env uuid uuid
  | Req_CreateTopup env uuid topup_wallet
  | Req_ConfirmTopup env uuid
  | Req_ApplyVoucher env apply_voucher

fun handle :: "request \<Rightarrow> world \<Rightarrow> world" where
  "handle (Req_CreateBooking e customerID req) s = snd (CreateBooking e customerID req s)"
| "handle (Req_CancelBooking e customerID bookingID) s = snd (CancelBooking e customerID bookingID s)"
| "handle (Req_CreateTopup e userID req) s = snd (CreateTopup e userID req s)"
| "handle (Req_ConfirmTopup e topupID) s = snd (ConfirmTopup e topupID s)"
| "handle (Req_ApplyVoucher e req) s = snd (ApplyVoucher e req s)"

fun serve :: "request list \<Rightarrow> world \<Rightarrow> world" where
  "serve [] s = s"
| "serve (q # qs) s = serve qs (handle q s)"

subsection \<open>What the specification speaks of\<close>

text \<open>The overlap test in the specification's words: two intervals \<open>[a,b)\<close> and \<open>[c,d)\<close>
  overlap iff \<open>a < d\<close> and \<open>c < b\<close>.\<close>

definition overlap :: "time \<Rightarrow> time \<Rightarrow> time \<Rightarrow> time \<Rightarrow> bool" where
  "overlap a b c d = (a < d \<and> c < b)"

text \<open>Two bookings are a double booking when they are on the same room, neither is cancelled
  and their intervals overlap; a table has no double booking when no two of its rows are one.\<close>

definition double_booked :: "booking \<Rightarrow> booking \<Rightarrow> bool" where
  "double_booked b1 b2 =
     (bk_MeetingRoomID b1 = bk_MeetingRoomID b2
      \<and> bk_Status b1 \<noteq> ''cancelled'' \<and> bk_Status b2 \<noteq> ''cancelled''
      \<and> overlap (bk_StartTime b1) (bk_EndTime b1) (bk_StartTime b2) (bk_EndTime b2))"

fun no_double_booking :: "booking list \<Rightarrow> bool" where
  "no_double_booking [] = True"
| "no_double_booking (b # bs) = (list_all (\<lambda>c. \<not> double_booked b c) bs \<and> no_double_booking bs)"

text \<open>The balance of a user's wallet, the status of a top-up and the row of a booking, as
  \<^verbatim>\<open>GetWalletByUserID\<close>, \<^verbatim>\<open>GetTopupByID\<close> and \<^verbatim>\<open>GetBookingByID\<close> read them.\<close>

definition balance_of :: "world \<Rightarrow> uuid \<Rightarrow> real option" where
  "balance_of s userID = map_option w_Balance (find (\<lambda>w. w_UserID w = userID) (wallets s))"

definition topup_of :: "world \<Rightarrow> uuid \<Rightarrow> topup option" where
  "topup_of s topupID = find (\<lambda>t. tp_ID t = topupID) (topups s)"

definition booking_of :: "world \<Rightarrow> uuid \<Rightarrow> booking option" where
  "booking_of s bookingID = find (\<lambda>b. bk_ID b = bookingID) (bookings s)"

subsection \<open>A small store\<close>

text \<open>One room at 10.0 an hour, a 10 percent and a 20 percent voucher, one customer with 50.0
  in the wallet and a pending top-up of 25.0; it is 08:00, no store call fails, new identifiers
  are 100 and 101, and the request is for 09:00 to 11:00 with the 10 percent voucher.\<close>

definition ex_env :: env where
  "ex_env = \<lparr>fails = (\<lambda>_. False), time_Now = (\<lambda>_. 8 * Hour), uuid_New = (\<lambda>k. 100 + k)\<rparr>"

definition ex_topup :: topup where
  "ex_topup = \<lparr>tp_ID = 40, tp_UserID = 7, tp_Amount = 25, tp_Method = ''card'',
                tp_Status = ''pending'', tp_CreatedAt = 7 * Hour\<rparr>"

definition ex_world :: world where
  "ex_world =
     \<lparr>meeting_rooms = [\<lparr>mr_ID = 1, mr_Name = ''R1'', mr_PricePerHour = 10, mr_Available = True\<rparr>],
      bookings = [],
      vouchers = [\<lparr>v_ID = 5, v_Code = ''TEN'', v_DiscountPercent = 10, v_MaxUses = 0,
                   v_UsedCount = 0, v_ValidFrom = 0, v_ValidTo = 100 * Hour\<rparr>,
                  \<lparr>v_ID = 6, v_Code = ''TWENTY'', v_DiscountPercent = 20, v_MaxUses = 0,
                   v_UsedCount = 0, v_ValidFrom = 0, v_ValidTo = 100 * Hour\<rparr>],
      wallets = [\<lparr>w_UserID = 7, w_Balance = 50\<rparr>],
      topups = [ex_topup],
      transactions = [], logs = []\<rparr>"

definition ex_request :: create_booking where
  "ex_request = \<lparr>rq_MeetingRoomID = 1, rq_StartTime = 9 * Hour, rq_EndTime = 11 * Hour,
                  rq_VoucherCode = ''TEN''\<rparr>"

text \<open>Three bookings asked for in a row: 09:00 to 11:00, then 10:00 to 12:00 (refused), then
  11:00 to 12:00.\<close>

definition ex_requests :: "request list" where
  "ex_requests =
     [Req_CreateBooking ex_env 7 ex_request,
      Req_CreateBooking (ex_env\<lparr>uuid_New := (\<lambda>k. 200 + k)\<rparr>) 7
        (ex_request\<lparr>rq_StartTime := 10 * Hour, rq_EndTime := 12 * Hour, rq_VoucherCode := []\<rparr>),
      Req_CreateBooking (ex_env\<lparr>uuid_New := (\<lambda>k. 300 + k)\<rparr>) 7
        (ex_request\<lparr>rq_StartTime := 11 * Hour, rq_EndTime := 12 * Hour, rq_VoucherCode := []\<rparr>)]"

text \<open>The same store with 5.0 in the wallet, and with one booking of 20.0 for 08:00 to 10:00
  of the next day, which starts in exactly 24 hours.\<close>

definition ex_world_poor :: world where
  "ex_world_poor = ex_world\<lparr>wallets := [\<lparr>w_UserID = 7, w_Balance = 5\<rparr>]\<rparr>"

definition ex_booking :: booking where
  "ex_booking = \<lparr>bk_ID = 90, bk_CustomerID = 7, bk_MeetingRoomID = 1, bk_StartTime = 32 * Hour,
                  bk_EndTime = 34 * Hour, bk_TotalPrice = 20, bk_VoucherID = None,
                  bk_Status = ''booked'', bk_CreatedAt = 7 * Hour\<rparr>"

definition ex_world_booked :: world where
  "ex_world_booked = ex_world\<lparr>bookings := [ex_booking]\<rparr>"

text \<open>What the request gives on the small store: the response and the store afterwards.\<close>

definition ex_response :: booking_response where
  "ex_response = \<lparr>rs_ID = 100, rs_CustomerID = 7, rs_MeetingRoomID = 1, rs_RoomName = ''R1'',
                   rs_StartTime = 9 * Hour, rs_EndTime = 11 * Hour, rs_TotalPrice = 18,
                   rs_VoucherID = Some 5, rs_Status = ''booked'', rs_CreatedAt = 8 * Hour\<rparr>"

definition ex_world_after :: world where
  "ex_world_after =
     ex_world\<lparr>bookings :=
                [\<lparr>bk_ID = 100, bk_CustomerID = 7, bk_MeetingRoomID = 1, bk_StartTime = 9 * Hour,
                  bk_EndTime = 11 * Hour, bk_TotalPrice = 18, bk_VoucherID = Some 5,
                  bk_Status = ''booked'', bk_CreatedAt = 8 * Hour\<rparr>],
              vouchers :=
                [\<lparr>v_ID = 5, v_Code = ''TEN'', v_DiscountPercent = 10, v_MaxUses = 0,
                  v_UsedCount = 1, v_ValidFrom = 0, v_ValidTo = 100 * Hour\<rparr>,
                 \<lparr>v_ID = 6, v_Code = ''TWENTY'', v_DiscountPercent = 20, v_MaxUses = 0,
                  v_UsedCount = 0, v_ValidFrom = 0, v_ValidTo = 100 * Hour\<rparr>],
              wallets := [\<lparr>w_UserID = 7, w_Balance = 32\<rparr>],
              transactions :=
                [\<lparr>tx_ID = 101, tx_UserID = 7, tx_ServiceID = 1, tx_ServiceRefID = 100,
                  tx_Amount = 18, tx_PaidAt = 8 * Hour, tx_Status = ''completed''\<rparr>],
              logs :=
                [''CreateBooking usecase called'',
                 ''GetMeetingRoomByID repository method called'',
                 ''CheckRoomAvailability repository method called'',
                 ''GetVoucherByCode repository method called'',
                 ''IncrementUsedCount repository method called'',
                 ''GetWalletByUserID repository method called'',
                 ''CreateBooking repository method called'',
                 ''DeductBalance repository method called'',
                 ''CreateTransaction repository method called'']\<rparr>"

text \<open>The environment in which the insertion into the ledger fails.\<close>

definition ex_env_ledger_down :: env where
  "ex_env_ledger_down = ex_env\<lparr>fails := (\<lambda>call. call = Call_CreateTransaction)\<rparr>"

text \<open>A request without voucher for an interval of \<open>10 ^ 19\<close> nanoseconds, about 317 years,
  and a wallet that can pay for it.\<close>

definition ex_request_long :: create_booking where
  "ex_request_long = \<lparr>rq_MeetingRoomID = 1, rq_StartTime = 8 * Hour,
                       rq_EndTime = 8 * Hour + 10 ^ 19, rq_VoucherCode = []\<rparr>"

definition ex_world_rich :: world where
  "ex_world_rich = ex_world\<lparr>wallets := [\<lparr>w_UserID = 7, w_Balance = 10 ^ 9\<rparr>]\<rparr>"

text \<open>What the long request gives: a price for the longest duration, not for the interval.\<close>

definition ex_response_long :: booking_response where
  "ex_response_long =
     \<lparr>rs_ID = 100, rs_CustomerID = 7, rs_MeetingRoomID = 1, rs_RoomName = ''R1'',
      rs_StartTime = 8 * Hour, rs_EndTime = 8 * Hour + 10 ^ 19,
      rs_TotalPrice = 10 * (real_of_int maxDuration / real_of_int Hour),
      rs_VoucherID = None, rs_Status = ''booked'', rs_CreatedAt = 8 * Hour\<rparr>"

text \<open>One second later than \<open>ex_env\<close>; the store after the booking was cancelled in \<open>ex_env\<close>.\<close>

definition ex_env_too_late :: env where
  "ex_env_too_late = ex_env\<lparr>time_Now := (\<lambda>_. 8 * Hour + 1000000000)\<rparr>"

definition ex_world_cancelled :: world where
  "ex_world_cancelled =
     ex_world\<lparr>bookings := [ex_booking\<lparr>bk_Status := ''cancelled''\<rparr>],
              wallets := [\<lparr>w_UserID = 7, w_Balance = 70\<rparr>],
              transactions :=
                [\<lparr>tx_ID = 100, tx_UserID = 7, tx_ServiceID = 1, tx_ServiceRefID = 90,
                  tx_Amount = - 20, tx_PaidAt = 8 * Hour, tx_Status = ''refunded''\<rparr>],
              logs :=
                [''GetBookingByID repository method called'',
                 ''CancelBooking repository method called'',
                 ''UpdateBalance repository method called'',
                 ''CreateTransaction repository method called'']\<rparr>"

text \<open>The environment in which the credit of the wallet fails; the store after the top-up
  was confirmed in \<open>ex_env\<close>.\<close>

definition ex_env_credit_down :: env where
  "ex_env_credit_down = ex_env\<lparr>fails := (\<lambda>call. call = Call_UpdateBalance)\<rparr>"

definition ex_world_confirmed :: world where
  "ex_world_confirmed =
     ex_world\<lparr>wallets := [\<lparr>w_UserID = 7, w_Balance = 75\<rparr>],
              topups := [ex_topup\<lparr>tp_Status := ''completed''\<rparr>],
              transactions :=
                [\<lparr>tx_ID = 100, tx_UserID = 7, tx_ServiceID = 2, tx_ServiceRefID = 40,
                  tx_Amount = 25, tx_PaidAt = 8 * Hour, tx_Status = ''completed''\<rparr>],
              logs :=
                [''ConfirmTopup usecase called'',
                 ''GetTopupByID repository method called'',
                 ''UpdateTopupStatus repository method called'',
                 ''UpdateBalance repository method called'',
                 ''CreateTransaction repository method called'']\<rparr>"

text \<open>The request without the voucher gives 20.0; 20 percent on 100.0.\<close>

definition ex_response_plain :: booking_response where
  "ex_response_plain = ex_response\<lparr>rs_TotalPrice := 20, rs_VoucherID := None\<rparr>"

definition ex_apply :: apply_voucher where
  "ex_apply = \<lparr>av_VoucherCode = ''TWENTY'', av_Amount = 100\<rparr>"

definition ex_calculation :: voucher_calculation where
  "ex_calculation = \<lparr>vc_OriginalAmount = 100, vc_DiscountAmount = 20, vc_FinalAmount = 80,
                      vc_DiscountPercent = 20, vc_VoucherCode = ''TWENTY''\<rparr>"

section \<open>Properties\<close>

subsection \<open>Basic facts\<close>

lemmas repo_defs = logger_Info_def logger_Errorw_def gorm_First_def gorm_Update_def gorm_Count_def
  gorm_Create_def GetMeetingRoomByID_def repo_CreateBooking_def GetBookingByID_def
  CheckRoomAvailability_def repo_CancelBooking_def GetVoucherByCode_def IncrementUsedCount_def
  GetWalletByUserID_def UpdateBalance_def DeductBalance_def repo_CreateTopup_def GetTopupByID_def
  UpdateTopupStatus_def CreateTransaction_def

lemmas usecase_defs = CreateBooking_def apply_voucher_if_provided_def pay_and_record_def
  CancelBooking_def CreateTopup_def ConfirmTopup_def ApplyVoucher_def

lemmas time_defs = Hour_def minDuration_def maxDuration_def Sub_def Hours_def
  signed_divide_int_def signed_modulo_int_def

lemmas ex_defs = ex_env_def ex_world_def ex_request_def ex_requests_def ex_world_poor_def
  ex_booking_def ex_world_booked_def ex_response_def ex_world_after_def ex_env_ledger_down_def
  ex_request_long_def ex_world_rich_def ex_response_long_def ex_topup_def
  ex_env_too_late_def ex_world_cancelled_def ex_env_credit_down_def ex_world_confirmed_def
  ex_response_plain_def ex_apply_def ex_calculation_def



lemma Sub_less_day: "Sub t u < 24 * Hour \<longleftrightarrow> t - u < 24 * Hour"
  by (simp add: Sub_def Let_def Hour_def maxDuration_def minDuration_def)

lemmas store_defs = logger_Info_def logger_Errorw_def gorm_First_def gorm_Count_def
  gorm_Create_def GetMeetingRoomByID_def repo_CreateBooking_def GetBookingByID_def
  CheckRoomAvailability_def repo_CancelBooking_def GetVoucherByCode_def IncrementUsedCount_def
  GetWalletByUserID_def UpdateBalance_def DeductBalance_def repo_CreateTopup_def GetTopupByID_def
  UpdateTopupStatus_def CreateTransaction_def

text \<open>Reading a row back after an update of the rows that satisfy a condition.\<close>

lemma find_SomeD: "find P xs = Some x \<Longrightarrow> P x"
  by (auto simp: find_Some_iff)

lemma find_gorm_Update:
  assumes "\<And>x. P (f x) = P x"
  shows "find P (gorm_Update Q f rows) = map_option (\<lambda>r. if Q r then f r else r) (find P rows)"
  by (induction rows) (simp_all add: gorm_Update_def assms)

lemma find_gorm_Update_guarded:
  assumes "\<And>x. P (f x) = P x" and "find P rows = Some r"
  shows "find P (gorm_Update (\<lambda>x. P x \<and> Q x) f rows) = Some (if Q r then f r else r)"
  using find_SomeD[OF assms(2)] by (simp add: find_gorm_Update assms)

lemma find_gorm_Update_same:
  assumes "\<And>x. P (f x) = P x"
  shows "find P (gorm_Update P f rows) = map_option f (find P rows)"
proof (cases "find P rows")
  case None
  then show ?thesis by (simp add: find_gorm_Update assms)
next
  case (Some r)
  with find_SomeD[OF Some] show ?thesis by (simp add: find_gorm_Update assms)
qed

lemma find_append_Some: "find P xs = Some x \<Longrightarrow> find P (xs @ ys) = Some x"
  by (induction xs) (auto split: if_splits)

text \<open>The availability query changes no table.\<close>

lemma CheckRoomAvailability_tables:
  assumes "CheckRoomAvailability e i st en s = (r, s')"
  shows "meeting_rooms s' = meeting_rooms s
       \<and> bookings s' = bookings s \<and> wallets s' = wallets s \<and> vouchers s' = vouchers s
       \<and> topups s' = topups s \<and> transactions s' = transactions s"
  using assms
  by (auto simp: store_defs Let_def split: if_splits option.splits)


subsection \<open>No double booking\<close>

lemma double_booked_cancel:
  "\<not> double_booked b x \<Longrightarrow>
   \<not> double_booked (if p b then b\<lparr>bk_Status := ''cancelled''\<rparr> else b)
                    (if p x then x\<lparr>bk_Status := ''cancelled''\<rparr> else x)"
  by (simp add: double_booked_def)

lemma double_booked_sym: "double_booked b c = double_booked c b"
  by (auto simp: double_booked_def overlap_def)

lemma no_double_booking_sorted_wrt:
  "no_double_booking bs = sorted_wrt (\<lambda>b c. \<not> double_booked b c) bs"
  by (induction bs) (auto simp: list_all_iff)

text \<open>The recursive check says what the claim says: no two rows at different places of the
  table are a double booking.\<close>

lemma no_double_booking_nth:
  "no_double_booking bs \<longleftrightarrow>
     (\<forall>i<length bs. \<forall>j<length bs. i \<noteq> j \<longrightarrow> \<not> double_booked (bs ! i) (bs ! j))"
proof
  assume nd: "no_double_booking bs"
  show "\<forall>i<length bs. \<forall>j<length bs. i \<noteq> j \<longrightarrow> \<not> double_booked (bs ! i) (bs ! j)"
  proof (intro allI impI)
    fix i j assume ij: "i < length bs" "j < length bs" "i \<noteq> j"
    from nd have sw: "sorted_wrt (\<lambda>b c. \<not> double_booked b c) bs"
      by (simp add: no_double_booking_sorted_wrt)
    show "\<not> double_booked (bs ! i) (bs ! j)"
    proof (cases "i < j")
      case True
      with sw ij show ?thesis by (simp add: sorted_wrt_iff_nth_less)
    next
      case False
      with ij have "j < i" by simp
      with sw ij have "\<not> double_booked (bs ! j) (bs ! i)" by (simp add: sorted_wrt_iff_nth_less)
      then show ?thesis by (simp add: double_booked_sym)
    qed
  qed
next
  assume "\<forall>i<length bs. \<forall>j<length bs. i \<noteq> j \<longrightarrow> \<not> double_booked (bs ! i) (bs ! j)"
  then show "no_double_booking bs"
    by (simp add: no_double_booking_sorted_wrt sorted_wrt_iff_nth_less)
qed

lemma no_double_booking_append:
  "no_double_booking (bs @ [b]) \<longleftrightarrow>
     no_double_booking bs \<and> (\<forall>x\<in>set bs. \<not> double_booked x b)"
  by (simp add: no_double_booking_sorted_wrt sorted_wrt_append)

lemma no_double_booking_cancel:
  assumes "no_double_booking bs"
  shows "no_double_booking (gorm_Update p (\<lambda>b. b\<lparr>bk_Status := ''cancelled''\<rparr>) bs)"
  using assms
proof (induction bs)
  case Nil
  then show ?case by (simp add: gorm_Update_def)
next
  case (Cons b bs)
  let ?f = "\<lambda>r. if p r then r\<lparr>bk_Status := ''cancelled''\<rparr> else r"
  from Cons.prems have free: "\<forall>x\<in>set bs. \<not> double_booked b x" and rest: "no_double_booking bs"
    by (simp_all add: list_all_iff)
  from free have "\<forall>x\<in>set bs. \<not> double_booked (?f b) (?f x)"
    using double_booked_cancel[of b _ p] by blast
  then have "list_all (\<lambda>c. \<not> double_booked (?f b) c) (map ?f bs)"
    unfolding list.pred_map by (simp only: list_all_iff o_def)
  moreover from Cons.IH rest have "no_double_booking (map ?f bs)"
    by (simp add: gorm_Update_def)
  ultimately show ?case
    by (simp add: gorm_Update_def)
qed

lemma apply_voucher_bookings:
  "apply_voucher_if_provided e req p s = (r, s') \<Longrightarrow> bookings s' = bookings s"
  by (auto simp: apply_voucher_if_provided_def repo_defs Let_def
           split: sum.splits option.splits prod.splits if_splits)

lemma pay_and_record_bookings:
  "pay_and_record e c req room p v s = (r, s') \<Longrightarrow>
   bookings s' = bookings s \<or>
   (\<exists>b. bookings s' = bookings s @ [b]
       \<and> bk_MeetingRoomID b = rq_MeetingRoomID req
       \<and> bk_StartTime b = rq_StartTime req \<and> bk_EndTime b = rq_EndTime req)"
  by (auto simp: pay_and_record_def repo_defs Let_def
           split: sum.splits option.splits prod.splits if_splits)

lemma GetMeetingRoomByID_bookings:
  "GetMeetingRoomByID e i s = (r, s') \<Longrightarrow> bookings s' = bookings s"
  by (auto simp: GetMeetingRoomByID_def logger_Info_def Let_def split: if_splits)

lemma CheckRoomAvailability_bookings:
  assumes "CheckRoomAvailability e roomID startTime endTime s = (r, s')"
  shows "bookings s' = bookings s \<and>
         (r = Inr True \<longrightarrow>
           (\<forall>b\<in>set (bookings s). bk_MeetingRoomID b = roomID \<and> bk_Status b \<noteq> ''cancelled''
              \<longrightarrow> \<not> slot_condition b startTime endTime))"
  using assms
  by (auto simp: CheckRoomAvailability_def logger_Info_def gorm_Count_def Let_def filter_empty_conv
           split: if_splits)

lemma slot_free_not_double_booked:
  assumes "bk_MeetingRoomID x = bk_MeetingRoomID b \<and> bk_Status x \<noteq> ''cancelled''
             \<longrightarrow> \<not> slot_condition x (bk_StartTime b) (bk_EndTime b)"
  shows "\<not> double_booked x b"
  using assms by (auto simp: double_booked_def overlap_def slot_condition_def)

text \<open>A call of \<^verbatim>\<open>CreateBooking\<close>, whatever it returns, leaves the table of bookings as it
  was or adds one row that double-books no row already there.\<close>

lemma CreateBooking_bookings:
  assumes "CreateBooking e c req s = (r, s')"
  shows "bookings s' = bookings s \<or>
   (\<exists>b. bookings s' = bookings s @ [b] \<and> (\<forall>x\<in>set (bookings s). \<not> double_booked x b))"
proof -
  let ?s = "logger_Info ''CreateBooking usecase called'' s"
  have b0: "bookings ?s = bookings s" by (simp add: logger_Info_def)
  show ?thesis
    using assms b0
    apply (simp add: CreateBooking_def Let_def split: if_splits prod.splits sum.splits)
    apply (auto dest!: GetMeetingRoomByID_bookings CheckRoomAvailability_bookings
                       apply_voucher_bookings pay_and_record_bookings
                intro!: slot_free_not_double_booked)
    done
qed

lemma CancelBooking_bookings:
  assumes "CancelBooking e c bid s = (r, s')"
  shows "bookings s' = bookings s \<or>
     bookings s' = gorm_Update (\<lambda>b. bk_ID b = bid) (\<lambda>b. b\<lparr>bk_Status := ''cancelled''\<rparr>) (bookings s)"
  using assms
  by (auto simp: CancelBooking_def repo_defs Let_def
           split: sum.splits option.splits prod.splits if_splits)

lemma other_bookings:
  "bookings (snd (CreateTopup e u q s)) = bookings s"
  "bookings (snd (ConfirmTopup e t s)) = bookings s"
  "bookings (snd (ApplyVoucher e a s)) = bookings s"
  by (auto simp: CreateTopup_def ConfirmTopup_def ApplyVoucher_def repo_defs Let_def
           split: sum.splits option.splits prod.splits if_splits)

lemma handle_no_double_booking:
  assumes "no_double_booking (bookings s)"
  shows "no_double_booking (bookings (handle q s))"
proof (cases q)
  case (Req_CreateBooking e c req)
  with CreateBooking_bookings[of e c req s "fst (CreateBooking e c req s)"
         "snd (CreateBooking e c req s)"] assms
  show ?thesis by (auto simp: no_double_booking_append)
next
  case (Req_CancelBooking e c bid)
  with CancelBooking_bookings[of e c bid s "fst (CancelBooking e c bid s)"
         "snd (CancelBooking e c bid s)"] assms
  show ?thesis by (auto simp: no_double_booking_cancel)
qed (use assms in \<open>simp_all add: other_bookings\<close>)

lemma serve_no_double_booking:
  "no_double_booking (bookings s) \<Longrightarrow> no_double_booking (bookings (serve qs s))"
  by (induction qs arbitrary: s) (simp_all add: handle_no_double_booking)

text \<open>C1. Starting from a table of bookings without double booking (the empty table is one),
  after any sequence of requests served one after the other, whether they succeed or fail, any
  two rows at different places of the table that are on the same meeting room and are not
  cancelled have intervals \<open>[start, end)\<close> that do not overlap.\<close>

theorem bookings_never_overlap:
  assumes "no_double_booking (bookings s)"
    and "i < length (bookings (serve qs s))" and "j < length (bookings (serve qs s))"
    and "i \<noteq> j"
    and "bk_MeetingRoomID (bookings (serve qs s) ! i) = bk_MeetingRoomID (bookings (serve qs s) ! j)"
    and "bk_Status (bookings (serve qs s) ! i) \<noteq> ''cancelled''"
    and "bk_Status (bookings (serve qs s) ! j) \<noteq> ''cancelled''"
  shows "\<not> overlap (bk_StartTime (bookings (serve qs s) ! i)) (bk_EndTime (bookings (serve qs s) ! i))
                   (bk_StartTime (bookings (serve qs s) ! j)) (bk_EndTime (bookings (serve qs s) ! j))"
proof -
  from assms(1) have "no_double_booking (bookings (serve qs s))"
    by (rule serve_no_double_booking)
  with assms(2-4) have "\<not> double_booked (bookings (serve qs s) ! i) (bookings (serve qs s) ! j)"
    by (simp add: no_double_booking_nth)
  with assms(5-7) show ?thesis
    by (simp add: double_booked_def)
qed

lemma ex_served:
  "bookings (serve ex_requests ex_world) =
     [\<lparr>bk_ID = 100, bk_CustomerID = 7, bk_MeetingRoomID = 1, bk_StartTime = 9 * Hour,
       bk_EndTime = 11 * Hour, bk_TotalPrice = 18, bk_VoucherID = Some 5, bk_Status = ''booked'',
       bk_CreatedAt = 8 * Hour\<rparr>,
      \<lparr>bk_ID = 300, bk_CustomerID = 7, bk_MeetingRoomID = 1, bk_StartTime = 11 * Hour,
       bk_EndTime = 12 * Hour, bk_TotalPrice = 10, bk_VoucherID = None, bk_Status = ''booked'',
       bk_CreatedAt = 8 * Hour\<rparr>]"
  by (simp add: ex_defs usecase_defs repo_defs time_defs slot_condition_def)

theorem bookings_never_overlap_witness:
  "no_double_booking (bookings ex_world)
   \<and> length (bookings (serve ex_requests ex_world)) = 2
   \<and> bk_MeetingRoomID (bookings (serve ex_requests ex_world) ! 0) = 1
   \<and> bk_MeetingRoomID (bookings (serve ex_requests ex_world) ! 1) = 1
   \<and> bk_Status (bookings (serve ex_requests ex_world) ! 0) = ''booked''
   \<and> bk_Status (bookings (serve ex_requests ex_world) ! 1) = ''booked''
   \<and> \<not> overlap (bk_StartTime (bookings (serve ex_requests ex_world) ! 0))
                 (bk_EndTime (bookings (serve ex_requests ex_world) ! 0))
                 (bk_StartTime (bookings (serve ex_requests ex_world) ! 1))
                 (bk_EndTime (bookings (serve ex_requests ex_world) ! 1))"
proof -
  have init: "no_double_booking (bookings ex_world)"
    by (simp add: ex_world_def)
  have rows: "length (bookings (serve ex_requests ex_world)) = 2
     \<and> bk_MeetingRoomID (bookings (serve ex_requests ex_world) ! 0) = 1
     \<and> bk_MeetingRoomID (bookings (serve ex_requests ex_world) ! 1) = 1
     \<and> bk_Status (bookings (serve ex_requests ex_world) ! 0) = ''booked''
     \<and> bk_Status (bookings (serve ex_requests ex_world) ! 1) = ''booked''"
    by (simp add: ex_served)
  from bookings_never_overlap[of ex_world 0 ex_requests 1] init rows
  show ?thesis by simp
qed

subsection \<open>The availability query\<close>

lemma slot_condition_overlap:
  assumes "bk_StartTime b < bk_EndTime b" and "startTime < endTime"
  shows "slot_condition b startTime endTime
           = overlap (bk_StartTime b) (bk_EndTime b) startTime endTime"
  using assms by (auto simp: slot_condition_def overlap_def)

lemma CheckRoomAvailability_result:
  assumes "\<not> fails e Call_CheckRoomAvailability"
  shows "fst (CheckRoomAvailability e roomID startTime endTime s) =
     Inr (\<not> (\<exists>b\<in>set (bookings s). bk_MeetingRoomID b = roomID \<and> bk_Status b \<noteq> ''cancelled''
                 \<and> slot_condition b startTime endTime))"
  using assms
  by (auto simp: CheckRoomAvailability_def logger_Info_def gorm_Count_def Let_def filter_empty_conv)

text \<open>Every row of the table of bookings ends after it starts, once that held: only
  \<^verbatim>\<open>CreateBooking\<close> inserts rows, and only after the time range was validated.\<close>

lemma CreateBooking_inserts_valid:
  assumes "CreateBooking e c req s = (r, s')"
  shows "bookings s' = bookings s \<or>
   (\<exists>b. bookings s' = bookings s @ [b] \<and> bk_StartTime b < bk_EndTime b)"
proof -
  let ?s = "logger_Info ''CreateBooking usecase called'' s"
  have b0: "bookings ?s = bookings s" by (simp add: logger_Info_def)
  show ?thesis
    using assms b0
    apply (simp add: CreateBooking_def Let_def split: if_splits prod.splits sum.splits)
    apply (auto dest!: GetMeetingRoomByID_bookings CheckRoomAvailability_bookings
                       apply_voucher_bookings pay_and_record_bookings)
    done
qed

lemma handle_valid_intervals:
  assumes "list_all (\<lambda>b. bk_StartTime b < bk_EndTime b) (bookings s)"
  shows "list_all (\<lambda>b. bk_StartTime b < bk_EndTime b) (bookings (handle q s))"
proof (cases q)
  case (Req_CreateBooking e c req)
  with CreateBooking_inserts_valid[of e c req s "fst (CreateBooking e c req s)"
         "snd (CreateBooking e c req s)"] assms
  show ?thesis by auto
next
  case (Req_CancelBooking e c bid)
  with CancelBooking_bookings[of e c bid s "fst (CancelBooking e c bid s)"
         "snd (CancelBooking e c bid s)"] assms
  show ?thesis by (auto simp: gorm_Update_def list_all_iff)
qed (use assms in \<open>simp_all add: other_bookings\<close>)

lemma serve_valid_intervals:
  "list_all (\<lambda>b. bk_StartTime b < bk_EndTime b) (bookings s) \<Longrightarrow>
   list_all (\<lambda>b. bk_StartTime b < bk_EndTime b) (bookings (serve qs s))"
  by (induction qs arbitrary: s) (simp_all add: handle_valid_intervals)

text \<open>C4. For a row and a requested interval that both end after they start, as every
  booking of the data model and every request that passed validation do, the condition of the
  availability query is the specification's overlap test. Hence, when the query itself does not
  fail, \<^verbatim>\<open>CheckRoomAvailability\<close> answers "not available" exactly when some booking of the room
  that is not cancelled overlaps the requested interval, and "available" exactly when none
  does. On an empty or inverted interval the two conditions can differ, the third disjunct
  holding where the overlap test does not.\<close>

theorem availability_query_is_overlap_test:
  assumes "startTime < endTime"
    and "\<forall>b\<in>set (bookings s). bk_StartTime b < bk_EndTime b"
    and "\<not> fails e Call_CheckRoomAvailability"
  shows "(\<forall>b. bk_StartTime b < bk_EndTime b \<longrightarrow>
            slot_condition b startTime endTime
              = overlap (bk_StartTime b) (bk_EndTime b) startTime endTime)
       \<and> ((fst (CheckRoomAvailability e roomID startTime endTime s) = Inr False) =
            (\<exists>b\<in>set (bookings s). bk_MeetingRoomID b = roomID \<and> bk_Status b \<noteq> ''cancelled''
                \<and> overlap (bk_StartTime b) (bk_EndTime b) startTime endTime))
       \<and> ((fst (CheckRoomAvailability e roomID startTime endTime s) = Inr True) =
            (\<not> (\<exists>b\<in>set (bookings s). bk_MeetingRoomID b = roomID \<and> bk_Status b \<noteq> ''cancelled''
                \<and> overlap (bk_StartTime b) (bk_EndTime b) startTime endTime)))"
proof -
  have eq: "slot_condition b startTime endTime
              = overlap (bk_StartTime b) (bk_EndTime b) startTime endTime"
    if "bk_StartTime b < bk_EndTime b" for b
    using that assms(1) by (rule slot_condition_overlap)
  with assms(2) have
    "(\<exists>b\<in>set (bookings s). bk_MeetingRoomID b = roomID \<and> bk_Status b \<noteq> ''cancelled''
         \<and> slot_condition b startTime endTime)
     = (\<exists>b\<in>set (bookings s). bk_MeetingRoomID b = roomID \<and> bk_Status b \<noteq> ''cancelled''
         \<and> overlap (bk_StartTime b) (bk_EndTime b) startTime endTime)"
    by blast
  with CheckRoomAvailability_result[OF assms(3), of roomID startTime endTime s] eq
  show ?thesis by simp
qed

theorem availability_query_is_overlap_test_witness:
  "33 * Hour < 35 * Hour
   \<and> list_all (\<lambda>b. bk_StartTime b < bk_EndTime b) (bookings ex_world_booked)
   \<and> \<not> fails ex_env Call_CheckRoomAvailability
   \<and> bk_StartTime ex_booking < bk_EndTime ex_booking
   \<and> slot_condition ex_booking (33 * Hour) (35 * Hour)
       = overlap (bk_StartTime ex_booking) (bk_EndTime ex_booking) (33 * Hour) (35 * Hour)
   \<and> fst (CheckRoomAvailability ex_env 1 (33 * Hour) (35 * Hour) ex_world_booked) = Inr False
   \<and> list_ex (\<lambda>b. bk_MeetingRoomID b = 1 \<and> bk_Status b \<noteq> ''cancelled''
         \<and> overlap (bk_StartTime b) (bk_EndTime b) (33 * Hour) (35 * Hour)) (bookings ex_world_booked)"
proof -
  have h: "33 * Hour < 35 * Hour"
    "\<forall>b\<in>set (bookings ex_world_booked). bk_StartTime b < bk_EndTime b"
    "\<not> fails ex_env Call_CheckRoomAvailability"
    by (simp_all add: Hour_def ex_defs)
  have wf: "bk_StartTime ex_booking < bk_EndTime ex_booking"
    by (simp add: Hour_def ex_defs)
  have ov: "\<exists>b\<in>set (bookings ex_world_booked). bk_MeetingRoomID b = 1 \<and> bk_Status b \<noteq> ''cancelled''
         \<and> overlap (bk_StartTime b) (bk_EndTime b) (33 * Hour) (35 * Hour)"
    by (simp add: Hour_def ex_defs overlap_def)
  from availability_query_is_overlap_test[OF h, of 1] ov h wf
  show ?thesis by (simp add: list_all_iff list_ex_iff)
qed

subsection \<open>Validation of the time range\<close>

text \<open>C9. A request whose end time is not after its start time is refused with
  \<open>InvalidTimeRange\<close>, and one with a valid range whose start time is before the current time
  with \<open>PastBooking\<close>, in every store and whatever store calls would fail. In both cases no
  table changes and the only line added to the log is the use case's own: every repository
  method starts by logging its call, so none was called.\<close>

theorem time_range_checked_before_store:
  "(rq_EndTime req \<le> rq_StartTime req \<longrightarrow>
      CreateBooking e customerID req s =
        (Inl InvalidTimeRange, s\<lparr>logs := logs s @ [''CreateBooking usecase called'']\<rparr>))
   \<and> (rq_StartTime req < rq_EndTime req \<and> rq_StartTime req < time_Now e 0 \<longrightarrow>
      CreateBooking e customerID req s =
        (Inl PastBooking, s\<lparr>logs := logs s @ [''CreateBooking usecase called'']\<rparr>))"
  by (auto simp: CreateBooking_def logger_Info_def Let_def)

theorem time_range_checked_before_store_witness:
  "rq_EndTime (ex_request\<lparr>rq_EndTime := 9 * Hour\<rparr>)
     \<le> rq_StartTime (ex_request\<lparr>rq_EndTime := 9 * Hour\<rparr>)
   \<and> CreateBooking ex_env 7 (ex_request\<lparr>rq_EndTime := 9 * Hour\<rparr>) ex_world =
        (Inl InvalidTimeRange, ex_world\<lparr>logs := logs ex_world @ [''CreateBooking usecase called'']\<rparr>)
   \<and> rq_StartTime (ex_request\<lparr>rq_StartTime := 7 * Hour\<rparr>)
       < rq_EndTime (ex_request\<lparr>rq_StartTime := 7 * Hour\<rparr>)
   \<and> rq_StartTime (ex_request\<lparr>rq_StartTime := 7 * Hour\<rparr>) < time_Now ex_env 0
   \<and> CreateBooking ex_env 7 (ex_request\<lparr>rq_StartTime := 7 * Hour\<rparr>) ex_world =
        (Inl PastBooking, ex_world\<lparr>logs := logs ex_world @ [''CreateBooking usecase called'']\<rparr>)"
proof -
  have a: "rq_EndTime (ex_request\<lparr>rq_EndTime := 9 * Hour\<rparr>)
             \<le> rq_StartTime (ex_request\<lparr>rq_EndTime := 9 * Hour\<rparr>)"
    by (simp add: ex_defs)
  have b: "rq_StartTime (ex_request\<lparr>rq_StartTime := 7 * Hour\<rparr>)
             < rq_EndTime (ex_request\<lparr>rq_StartTime := 7 * Hour\<rparr>)
      \<and> rq_StartTime (ex_request\<lparr>rq_StartTime := 7 * Hour\<rparr>) < time_Now ex_env 0"
    by (simp add: ex_defs Hour_def)
  from time_range_checked_before_store[of "ex_request\<lparr>rq_EndTime := 9 * Hour\<rparr>" ex_env 7 ex_world] a
       time_range_checked_before_store[of "ex_request\<lparr>rq_StartTime := 7 * Hour\<rparr>" ex_env 7 ex_world] b
  show ?thesis by blast
qed

subsection \<open>The voucher counter and the balance check\<close>

text \<open>When \<^verbatim>\<open>CreateBooking\<close> fails with \<open>InsufficientBalance\<close>, no booking has been
  inserted, no wallet has changed and no Transaction has been appended. The table of vouchers
  is not among these.\<close>

lemma pay_and_record_insufficient:
  assumes "pay_and_record e c req room p v s = (Inl InsufficientBalance, s')"
  shows "bookings s' = bookings s \<and> wallets s' = wallets s \<and> transactions s' = transactions s"
  using assms
  by (auto simp: pay_and_record_def store_defs Let_def
           split: sum.splits option.splits prod.splits if_splits)

lemma apply_voucher_frame:
  assumes "apply_voucher_if_provided e req p s = (r, s')"
  shows "bookings s' = bookings s \<and> wallets s' = wallets s \<and> transactions s' = transactions s"
  using assms
  by (auto simp: apply_voucher_if_provided_def store_defs Let_def
           split: sum.splits option.splits prod.splits if_splits)

lemma GetMeetingRoomByID_frame:
  "GetMeetingRoomByID e i s = (r, s') \<Longrightarrow>
     bookings s' = bookings s \<and> wallets s' = wallets s \<and> transactions s' = transactions s"
  by (auto simp: GetMeetingRoomByID_def logger_Info_def Let_def split: if_splits)

lemma CreateBooking_insufficient:
  assumes "CreateBooking e c req s = (Inl InsufficientBalance, s')"
  shows "bookings s' = bookings s \<and> wallets s' = wallets s \<and> transactions s' = transactions s"
proof -
  let ?s = "logger_Info ''CreateBooking usecase called'' s"
  have t0: "bookings ?s = bookings s" "wallets ?s = wallets s" "transactions ?s = transactions s"
    by (simp_all add: logger_Info_def)
  show ?thesis
    using assms t0
    apply (simp add: CreateBooking_def Let_def split: if_splits prod.splits sum.splits)
    apply (auto dest!: GetMeetingRoomByID_frame CheckRoomAvailability_tables
                       apply_voucher_frame pay_and_record_insufficient)
    done
qed

text \<open>C2. With a valid voucher and 5.0 in the wallet for a booking of 18.0, \<^verbatim>\<open>CreateBooking\<close>
  fails with \<open>InsufficientBalance\<close>, and the voucher's \<^verbatim>\<open>used_count\<close> has gone from 0 to 1: the
  counter is incremented before the balance is checked.\<close>

theorem voucher_used_on_insufficient_balance:
  "fst (CreateBooking ex_env 7 ex_request ex_world_poor) = Inl InsufficientBalance
   \<and> map v_UsedCount (vouchers ex_world_poor) = [0, 0]
   \<and> map v_UsedCount (vouchers (snd (CreateBooking ex_env 7 ex_request ex_world_poor))) = [1, 0]"
  by (simp add: ex_defs usecase_defs repo_defs time_defs)

subsection \<open>The guarded debit\<close>

text \<open>The only error \<^verbatim>\<open>DeductBalance\<close> returns is the database's; when the database does
  not fail, the balance read back is the old one less the amount if that was covered, and the
  old one if not.\<close>

lemma DeductBalance_signal:
  "fst (DeductBalance e userID amount s) = (if fails e Call_DeductBalance then Some DbError else None)"
  by (simp add: DeductBalance_def Let_def)

lemma DeductBalance_balance:
  assumes "\<not> fails e Call_DeductBalance"
  shows "balance_of (snd (DeductBalance e userID amount s)) userID
           = map_option (\<lambda>w. if amount \<le> w then w - amount else w) (balance_of s userID)"
proof (cases "find (\<lambda>w. w_UserID w = userID) (wallets s)")
  case None
  with assms show ?thesis
    by (simp add: DeductBalance_def logger_Info_def balance_of_def find_gorm_Update Let_def)
next
  case (Some w)
  with assms show ?thesis
    by (simp add: DeductBalance_def logger_Info_def balance_of_def find_gorm_Update_guarded Let_def)
qed

text \<open>C3. \<^verbatim>\<open>DeductBalance\<close> of 10.0 on a wallet of 5.0, and on a user without wallet, returns
  \<^verbatim>\<open>nil\<close> and changes no table: the update matches no row, which is not an error.\<close>

theorem DeductBalance_silent_without_debit:
  "DeductBalance ex_env 7 10 ex_world_poor =
     (None, ex_world_poor\<lparr>logs := logs ex_world_poor @ [''DeductBalance repository method called'']\<rparr>)
   \<and> DeductBalance ex_env 8 10 ex_world_poor =
     (None, ex_world_poor\<lparr>logs := logs ex_world_poor @ [''DeductBalance repository method called'']\<rparr>)"
  by (simp add: ex_defs repo_defs)

subsection \<open>What a successful booking does\<close>

lemma apply_voucher_result:
  assumes "apply_voucher_if_provided e req p s = (Inr (p', vid), s')"
  shows "meeting_rooms s' = meeting_rooms s \<and> bookings s' = bookings s \<and> wallets s' = wallets s
       \<and> topups s' = topups s \<and> transactions s' = transactions s
       \<and> (if rq_VoucherCode req = [] then p' = p \<and> vid = None
           else \<exists>v. find (\<lambda>v. v_Code v = rq_VoucherCode req) (vouchers s) = Some v
                  \<and> p' = p - p * real_of_int (v_DiscountPercent v) / 100 \<and> vid = Some (v_ID v))"
  using assms
  by (auto simp: apply_voucher_if_provided_def repo_defs Let_def
           split: sum.splits option.splits prod.splits if_splits)

lemma pay_and_record_result:
  assumes "pay_and_record e c req room p vid s = (Inr r, s')"
  shows "\<exists>w. balance_of s c = Some w \<and> p \<le> w \<and> balance_of s' c = Some (w - p)
       \<and> rs_TotalPrice r = p \<and> rs_ID r = uuid_New e 0
       \<and> bookings s' = bookings s @
            [\<lparr>bk_ID = uuid_New e 0, bk_CustomerID = c, bk_MeetingRoomID = rq_MeetingRoomID req,
              bk_StartTime = rq_StartTime req, bk_EndTime = rq_EndTime req, bk_TotalPrice = p,
              bk_VoucherID = vid, bk_Status = ''booked'', bk_CreatedAt = time_Now e 2\<rparr>]
       \<and> transactions s' =
            (if fails e Call_CreateTransaction then transactions s
             else transactions s @
               [\<lparr>tx_ID = uuid_New e 1, tx_UserID = c, tx_ServiceID = 1,
                 tx_ServiceRefID = uuid_New e 0, tx_Amount = p, tx_PaidAt = time_Now e 3,
                 tx_Status = ''completed''\<rparr>])"
  using assms
  by (auto simp: pay_and_record_def store_defs balance_of_def find_gorm_Update_guarded Let_def
           split: sum.splits option.splits prod.splits if_splits)

lemma GetMeetingRoomByID_result:
  assumes "GetMeetingRoomByID e i s = (Inr room, s')"
  shows "find (\<lambda>m. mr_ID m = i) (meeting_rooms s) = Some room
       \<and> bookings s' = bookings s \<and> wallets s' = wallets s \<and> vouchers s' = vouchers s
       \<and> topups s' = topups s \<and> transactions s' = transactions s"
  using assms
  by (auto simp: store_defs Let_def split: if_splits option.splits)

lemma CreateBooking_result:
  assumes "CreateBooking e c req s = (Inr r, s')"
  shows "\<exists>room p vid w.
           find (\<lambda>m. mr_ID m = rq_MeetingRoomID req) (meeting_rooms s) = Some room
         \<and> (if rq_VoucherCode req = []
             then p = mr_PricePerHour room * Hours (Sub (rq_EndTime req) (rq_StartTime req))
                  \<and> vid = None
             else \<exists>v. find (\<lambda>v. v_Code v = rq_VoucherCode req) (vouchers s) = Some v
                  \<and> p = mr_PricePerHour room * Hours (Sub (rq_EndTime req) (rq_StartTime req))
                       - mr_PricePerHour room * Hours (Sub (rq_EndTime req) (rq_StartTime req))
                          * real_of_int (v_DiscountPercent v) / 100
                  \<and> vid = Some (v_ID v))
         \<and> balance_of s c = Some w \<and> p \<le> w \<and> balance_of s' c = Some (w - p)
         \<and> rs_TotalPrice r = p \<and> rs_ID r = uuid_New e 0
         \<and> bookings s' = bookings s @
            [\<lparr>bk_ID = uuid_New e 0, bk_CustomerID = c, bk_MeetingRoomID = rq_MeetingRoomID req,
              bk_StartTime = rq_StartTime req, bk_EndTime = rq_EndTime req, bk_TotalPrice = p,
              bk_VoucherID = vid, bk_Status = ''booked'', bk_CreatedAt = time_Now e 2\<rparr>]
         \<and> transactions s' =
            (if fails e Call_CreateTransaction then transactions s
             else transactions s @
               [\<lparr>tx_ID = uuid_New e 1, tx_UserID = c, tx_ServiceID = 1,
                 tx_ServiceRefID = uuid_New e 0, tx_Amount = p, tx_PaidAt = time_Now e 3,
                 tx_Status = ''completed''\<rparr>])"
proof -
  let ?s0 = "logger_Info ''CreateBooking usecase called'' s"
  from assms obtain room s1 where
    g: "GetMeetingRoomByID e (rq_MeetingRoomID req) ?s0 = (Inr room, s1)"
    by (auto simp: CreateBooking_def Let_def split: if_splits prod.splits sum.splits)
  from assms g obtain s2 where
    a: "CheckRoomAvailability e (rq_MeetingRoomID req) (rq_StartTime req) (rq_EndTime req) s1 = (Inr True, s2)"
    by (auto simp: CreateBooking_def Let_def split: if_splits prod.splits sum.splits)
  let ?base = "mr_PricePerHour room * Hours (Sub (rq_EndTime req) (rq_StartTime req))"
  from assms g a obtain p vid s3 where
    v: "apply_voucher_if_provided e req ?base s2 = (Inr (p, vid), s3)"
    by (auto simp: CreateBooking_def Let_def split: if_splits prod.splits sum.splits)
  from assms g a v have
    pr: "pay_and_record e c req room p vid s3 = (Inr r, s')"
    by (auto simp: CreateBooking_def Let_def split: if_splits prod.splits sum.splits)
  note G = GetMeetingRoomByID_result[OF g] and A = CheckRoomAvailability_tables[OF a]
    and V = apply_voucher_result[OF v]
  have tabs: "meeting_rooms ?s0 = meeting_rooms s" "vouchers ?s0 = vouchers s"
      "bookings ?s0 = bookings s" "wallets ?s0 = wallets s" "transactions ?s0 = transactions s"
    by (simp_all add: logger_Info_def)
  have bal: "balance_of s3 c = balance_of s c"
    using G A V tabs by (simp add: balance_of_def)
  from pay_and_record_result[OF pr] obtain w where
    P: "balance_of s3 c = Some w" "p \<le> w" "balance_of s' c = Some (w - p)"
       "rs_TotalPrice r = p" "rs_ID r = uuid_New e 0"
       "bookings s' = bookings s3 @
            [\<lparr>bk_ID = uuid_New e 0, bk_CustomerID = c, bk_MeetingRoomID = rq_MeetingRoomID req,
              bk_StartTime = rq_StartTime req, bk_EndTime = rq_EndTime req, bk_TotalPrice = p,
              bk_VoucherID = vid, bk_Status = ''booked'', bk_CreatedAt = time_Now e 2\<rparr>]"
       "transactions s' =
            (if fails e Call_CreateTransaction then transactions s3
             else transactions s3 @
               [\<lparr>tx_ID = uuid_New e 1, tx_UserID = c, tx_ServiceID = 1,
                 tx_ServiceRefID = uuid_New e 0, tx_Amount = p, tx_PaidAt = time_Now e 3,
                 tx_Status = ''completed''\<rparr>])"
    by blast
  have vs: "vouchers s2 = vouchers s" using G A tabs by simp
  have ms: "find (\<lambda>m. mr_ID m = rq_MeetingRoomID req) (meeting_rooms s) = Some room"
    using G tabs by simp
  show ?thesis
    apply (rule exI[of _ room], rule exI[of _ p], rule exI[of _ vid], rule exI[of _ w])
    using ms V vs P bal G A tabs
    by (simp split: if_splits)
qed

lemma ex_CreateBooking:
  "CreateBooking ex_env 7 ex_request ex_world = (Inr ex_response, ex_world_after)"
  by (simp add: ex_defs usecase_defs repo_defs time_defs slot_condition_def)

text \<open>C5, as amended. When \<^verbatim>\<open>CreateBooking\<close> returns a booking with total price \<open>P\<close>, the
  customer's balance has gone down by exactly \<open>P\<close> and the booking with the returned identifier
  and price has been inserted; one Transaction with service 1, amount \<open>P\<close>, status
  "completed" and the booking's identifier as reference has been appended to the ledger when
  the insertion into the ledger succeeded, and the ledger is unchanged when that insertion
  failed, which is only logged.\<close>

theorem CreateBooking_settlement:
  assumes "CreateBooking e customerID req s = (Inr r, s')"
  shows "(\<exists>w. balance_of s customerID = Some w
             \<and> balance_of s' customerID = Some (w - rs_TotalPrice r))
       \<and> (\<exists>b. bookings s' = bookings s @ [b] \<and> bk_ID b = rs_ID r
             \<and> bk_TotalPrice b = rs_TotalPrice r \<and> bk_Status b = ''booked'')
       \<and> transactions s' =
            (if fails e Call_CreateTransaction then transactions s
             else transactions s @
               [\<lparr>tx_ID = uuid_New e 1, tx_UserID = customerID, tx_ServiceID = 1,
                 tx_ServiceRefID = rs_ID r, tx_Amount = rs_TotalPrice r,
                 tx_PaidAt = time_Now e 3, tx_Status = ''completed''\<rparr>])"
  using CreateBooking_result[OF assms] by auto

theorem CreateBooking_settlement_witness:
  "CreateBooking ex_env 7 ex_request ex_world = (Inr ex_response, ex_world_after)
   \<and> rs_TotalPrice ex_response = 18
   \<and> balance_of ex_world 7 = Some 50
   \<and> balance_of ex_world_after 7 = Some 32
   \<and> transactions ex_world_after =
        [\<lparr>tx_ID = 101, tx_UserID = 7, tx_ServiceID = 1, tx_ServiceRefID = 100,
          tx_Amount = 18, tx_PaidAt = 8 * Hour, tx_Status = ''completed''\<rparr>]"
proof -
  have before: "balance_of ex_world 7 = Some 50" "transactions ex_world = []"
    "\<not> fails ex_env Call_CreateTransaction" "uuid_New ex_env 1 = 101" "time_Now ex_env 3 = 8 * Hour"
    "rs_TotalPrice ex_response = 18" "rs_ID ex_response = 100"
    by (simp_all add: balance_of_def ex_defs)
  from CreateBooking_settlement[OF ex_CreateBooking] before ex_CreateBooking
  show ?thesis by simp
qed

text \<open>C5 as stated fails where the insertion into the ledger fails: the booking succeeds,
  and no Transaction has been appended.\<close>

theorem success_without_ledger_entry:
  "fst (CreateBooking ex_env_ledger_down 7 ex_request ex_world) = Inr ex_response
   \<and> transactions (snd (CreateBooking ex_env_ledger_down 7 ex_request ex_world))
       = transactions ex_world"
  by (simp add: ex_defs usecase_defs repo_defs time_defs slot_condition_def)

subsection \<open>Price and discount\<close>






subsection \<open>Cancellation\<close>

lemma CancelBooking_rejected:
  assumes "\<not> fails e Call_GetBookingByID"
  shows "booking_of s bid = None \<Longrightarrow>
           CancelBooking e c bid s =
             (Some BookingNotFound, s\<lparr>logs := logs s @ [''GetBookingByID repository method called'']\<rparr>)"
    and "booking_of s bid = Some b \<Longrightarrow> bk_CustomerID b \<noteq> c \<Longrightarrow>
           CancelBooking e c bid s =
             (Some Unauthorized, s\<lparr>logs := logs s @ [''GetBookingByID repository method called'']\<rparr>)"
    and "booking_of s bid = Some b \<Longrightarrow> bk_CustomerID b = c \<Longrightarrow> bk_Status b = ''cancelled'' \<Longrightarrow>
           CancelBooking e c bid s =
             (Some AlreadyCancelled, s\<lparr>logs := logs s @ [''GetBookingByID repository method called'']\<rparr>)"
    and "booking_of s bid = Some b \<Longrightarrow> bk_CustomerID b = c \<Longrightarrow> bk_Status b \<noteq> ''cancelled'' \<Longrightarrow>
         bk_StartTime b - time_Now e 0 < 24 * Hour \<Longrightarrow>
           CancelBooking e c bid s =
             (Some TooLateToCancel, s\<lparr>logs := logs s @ [''GetBookingByID repository method called'']\<rparr>)"
  using assms
  by (simp_all add: CancelBooking_def GetBookingByID_def gorm_First_def logger_Info_def
        booking_of_def Sub_less_day Let_def)

lemma CancelBooking_effects:
  assumes "\<not> fails e Call_GetBookingByID" and "booking_of s bid = Some b"
    and "bk_CustomerID b = c" and "bk_Status b \<noteq> ''cancelled''"
    and "24 * Hour \<le> bk_StartTime b - time_Now e 0"
    and "\<not> fails e Call_CancelBooking" and "\<not> fails e Call_UpdateBalance"
  shows "fst (CancelBooking e c bid s) = None
       \<and> booking_of (snd (CancelBooking e c bid s)) bid = Some (b\<lparr>bk_Status := ''cancelled''\<rparr>)
       \<and> balance_of (snd (CancelBooking e c bid s)) c
           = map_option (\<lambda>w. w + bk_TotalPrice b) (balance_of s c)
       \<and> transactions (snd (CancelBooking e c bid s)) =
           (if fails e Call_CreateTransaction then transactions s
            else transactions s @
              [\<lparr>tx_ID = uuid_New e 0, tx_UserID = c, tx_ServiceID = 1, tx_ServiceRefID = bk_ID b,
                tx_Amount = - bk_TotalPrice b, tx_PaidAt = time_Now e 1,
                tx_Status = ''refunded''\<rparr>])"
proof -
  from assms(5) have late: "\<not> Sub (bk_StartTime b) (time_Now e 0) < 24 * Hour"
    by (simp add: Sub_less_day)
  from assms(2) have found: "find (\<lambda>b. bk_ID b = bid) (bookings s) = Some b"
    by (simp add: booking_of_def)
  show ?thesis
    using assms(1,3,4,6,7) late found
    by (simp add: CancelBooking_def store_defs booking_of_def balance_of_def
          find_gorm_Update_same option.map_comp o_def Let_def)
qed

text \<open>C6, as amended. Provided the lookup of the booking does not itself fail,
  \<^verbatim>\<open>CancelBooking\<close> fails with \<open>BookingNotFound\<close> when there is no such booking, else with
  \<open>Unauthorized\<close> when the booking is another customer's, else with \<open>AlreadyCancelled\<close> when its
  status is "cancelled", else with \<open>TooLateToCancel\<close> when its start is less than 24 hours
  after the current time; each of these changes no table. Otherwise (at exactly 24 hours too),
  when the update of the status and the credit of the wallet succeed, it returns no error, the
  booking reads as cancelled, the customer's balance has gone up by exactly the total price,
  and a Transaction with the negated total price, service 1 and status "refunded" has been
  appended to the ledger when the insertion into the ledger succeeded; when that insertion
  failed, which is only logged, the ledger is unchanged.\<close>

theorem CancelBooking_spec:
  assumes "\<not> fails e Call_GetBookingByID"
  shows "(booking_of s bookingID = None \<longrightarrow>
            CancelBooking e customerID bookingID s =
              (Some BookingNotFound,
               s\<lparr>logs := logs s @ [''GetBookingByID repository method called'']\<rparr>))
       \<and> (\<forall>b. booking_of s bookingID = Some b \<longrightarrow>
            (bk_CustomerID b \<noteq> customerID \<longrightarrow>
               CancelBooking e customerID bookingID s =
                 (Some Unauthorized,
                  s\<lparr>logs := logs s @ [''GetBookingByID repository method called'']\<rparr>))
          \<and> (bk_CustomerID b = customerID \<and> bk_Status b = ''cancelled'' \<longrightarrow>
               CancelBooking e customerID bookingID s =
                 (Some AlreadyCancelled,
                  s\<lparr>logs := logs s @ [''GetBookingByID repository method called'']\<rparr>))
          \<and> (bk_CustomerID b = customerID \<and> bk_Status b \<noteq> ''cancelled''
               \<and> bk_StartTime b - time_Now e 0 < 24 * Hour \<longrightarrow>
               CancelBooking e customerID bookingID s =
                 (Some TooLateToCancel,
                  s\<lparr>logs := logs s @ [''GetBookingByID repository method called'']\<rparr>))
          \<and> (bk_CustomerID b = customerID \<and> bk_Status b \<noteq> ''cancelled''
               \<and> 24 * Hour \<le> bk_StartTime b - time_Now e 0
               \<and> \<not> fails e Call_CancelBooking \<and> \<not> fails e Call_UpdateBalance \<longrightarrow>
               fst (CancelBooking e customerID bookingID s) = None
             \<and> booking_of (snd (CancelBooking e customerID bookingID s)) bookingID
                 = Some (b\<lparr>bk_Status := ''cancelled''\<rparr>)
             \<and> (\<forall>w. balance_of s customerID = Some w \<longrightarrow>
                   balance_of (snd (CancelBooking e customerID bookingID s)) customerID
                     = Some (w + bk_TotalPrice b))
             \<and> transactions (snd (CancelBooking e customerID bookingID s)) =
                 (if fails e Call_CreateTransaction then transactions s
                  else transactions s @
                    [\<lparr>tx_ID = uuid_New e 0, tx_UserID = customerID, tx_ServiceID = 1,
                      tx_ServiceRefID = bk_ID b, tx_Amount = - bk_TotalPrice b,
                      tx_PaidAt = time_Now e 1, tx_Status = ''refunded''\<rparr>])))"
  using CancelBooking_rejected[OF assms, where s = s and bid = bookingID and c = customerID]
        CancelBooking_effects[OF assms, where s = s and bid = bookingID and c = customerID]
  by (intro conjI allI impI) simp_all


theorem CancelBooking_spec_witness:
  "\<not> fails ex_env Call_GetBookingByID
   \<and> booking_of ex_world 90 = None
   \<and> fst (CancelBooking ex_env 7 90 ex_world) = Some BookingNotFound
   \<and> booking_of ex_world_booked 90 = Some ex_booking
   \<and> bk_CustomerID ex_booking = 7
   \<and> fst (CancelBooking ex_env 8 90 ex_world_booked) = Some Unauthorized
   \<and> booking_of ex_world_cancelled 90 = Some (ex_booking\<lparr>bk_Status := ''cancelled''\<rparr>)
   \<and> fst (CancelBooking ex_env 7 90 ex_world_cancelled) = Some AlreadyCancelled
   \<and> bk_StartTime ex_booking - time_Now ex_env_too_late 0 = 24 * Hour - 1000000000
   \<and> fst (CancelBooking ex_env_too_late 7 90 ex_world_booked) = Some TooLateToCancel
   \<and> bk_StartTime ex_booking - time_Now ex_env 0 = 24 * Hour
   \<and> fst (CancelBooking ex_env 7 90 ex_world_booked) = None
   \<and> booking_of (snd (CancelBooking ex_env 7 90 ex_world_booked)) 90
        = Some (ex_booking\<lparr>bk_Status := ''cancelled''\<rparr>)
   \<and> balance_of ex_world_booked 7 = Some 50
   \<and> balance_of (snd (CancelBooking ex_env 7 90 ex_world_booked)) 7 = Some 70
   \<and> transactions (snd (CancelBooking ex_env 7 90 ex_world_booked)) =
        [\<lparr>tx_ID = 100, tx_UserID = 7, tx_ServiceID = 1, tx_ServiceRefID = 90,
          tx_Amount = - 20, tx_PaidAt = 8 * Hour, tx_Status = ''refunded''\<rparr>]"
proof -
  have env: "\<not> fails ex_env Call_GetBookingByID" "\<not> fails ex_env_too_late Call_GetBookingByID"
    "\<not> fails ex_env Call_CancelBooking" "\<not> fails ex_env Call_UpdateBalance"
    "\<not> fails ex_env Call_CreateTransaction" "uuid_New ex_env 0 = 100" "time_Now ex_env 1 = 8 * Hour"
    by (simp_all add: ex_defs)
  have rows: "booking_of ex_world 90 = None" "booking_of ex_world_booked 90 = Some ex_booking"
    "booking_of ex_world_cancelled 90 = Some (ex_booking\<lparr>bk_Status := ''cancelled''\<rparr>)"
    "balance_of ex_world_booked 7 = Some 50" "transactions ex_world_booked = []"
    by (simp_all add: booking_of_def balance_of_def ex_defs)
  have row: "bk_CustomerID ex_booking = 7" "bk_Status ex_booking = ''booked''"
    "bk_ID ex_booking = 90" "bk_TotalPrice ex_booking = 20"
    "bk_StartTime ex_booking - time_Now ex_env_too_late 0 = 24 * Hour - 1000000000"
    "bk_StartTime ex_booking - time_Now ex_env 0 = 24 * Hour"
    by (simp_all add: ex_defs)
  from CancelBooking_spec[OF env(1), of ex_world 90 7]
       CancelBooking_spec[OF env(1), of ex_world_booked 90 8]
       CancelBooking_spec[OF env(1), of ex_world_cancelled 90 7]
       CancelBooking_spec[OF env(2), of ex_world_booked 90 7]
       CancelBooking_spec[OF env(1), of ex_world_booked 90 7]
       env rows row
  show ?thesis by simp
qed

text \<open>C6 as stated fails where the insertion into the ledger fails: all preconditions hold,
  the cancellation succeeds, and no Transaction has been appended.\<close>

theorem cancellation_without_ledger_entry:
  "booking_of ex_world_booked 90 = Some ex_booking
   \<and> bk_CustomerID ex_booking = 7
   \<and> bk_Status ex_booking = ''booked''
   \<and> bk_StartTime ex_booking - time_Now ex_env_ledger_down 0 = 24 * Hour
   \<and> fst (CancelBooking ex_env_ledger_down 7 90 ex_world_booked) = None
   \<and> transactions (snd (CancelBooking ex_env_ledger_down 7 90 ex_world_booked))
       = transactions ex_world_booked"
  by (simp add: ex_defs booking_of_def CancelBooking_def repo_defs time_defs)

subsection \<open>Confirmation of a top-up\<close>

lemma ConfirmTopup_not_pending:
  assumes "\<not> fails e Call_GetTopupByID" and "topup_of s tid = Some t"
    and "tp_Status t \<noteq> ''pending''"
  shows "ConfirmTopup e tid s =
           (Some NotPending,
            s\<lparr>logs := logs s @ [''ConfirmTopup usecase called'',
                                 ''GetTopupByID repository method called'']\<rparr>)"
  using assms
  by (simp add: ConfirmTopup_def GetTopupByID_def gorm_First_def logger_Info_def topup_of_def Let_def)

lemma ConfirmTopup_pending:
  assumes "\<not> fails e Call_GetTopupByID" and "topup_of s tid = Some t"
    and "tp_Status t = ''pending''"
    and "\<not> fails e Call_UpdateTopupStatus" and "\<not> fails e Call_UpdateBalance"
  shows "fst (ConfirmTopup e tid s) = None
       \<and> topup_of (snd (ConfirmTopup e tid s)) tid = Some (t\<lparr>tp_Status := ''completed''\<rparr>)
       \<and> balance_of (snd (ConfirmTopup e tid s)) (tp_UserID t)
           = map_option (\<lambda>w. w + tp_Amount t) (balance_of s (tp_UserID t))
       \<and> transactions (snd (ConfirmTopup e tid s)) =
           (if fails e Call_CreateTransaction then transactions s
            else transactions s @
              [\<lparr>tx_ID = uuid_New e 0, tx_UserID = tp_UserID t, tx_ServiceID = 2,
                tx_ServiceRefID = tp_ID t, tx_Amount = tp_Amount t, tx_PaidAt = time_Now e 0,
                tx_Status = ''completed''\<rparr>])"
proof -
  from assms(2) have found: "find (\<lambda>t. tp_ID t = tid) (topups s) = Some t"
    by (simp add: topup_of_def)
  show ?thesis
    using assms(1,3,4,5) found
    by (simp add: ConfirmTopup_def store_defs topup_of_def balance_of_def
          find_gorm_Update_same option.map_comp o_def Let_def)
qed

lemma ConfirmTopup_credit_fails:
  assumes "\<not> fails e Call_GetTopupByID" and "topup_of s tid = Some t"
    and "tp_Status t = ''pending''"
    and "\<not> fails e Call_UpdateTopupStatus" and "fails e Call_UpdateBalance"
  shows "fst (ConfirmTopup e tid s) = Some CreditFailed
       \<and> topup_of (snd (ConfirmTopup e tid s)) tid = Some (t\<lparr>tp_Status := ''completed''\<rparr>)
       \<and> wallets (snd (ConfirmTopup e tid s)) = wallets s
       \<and> transactions (snd (ConfirmTopup e tid s)) = transactions s"
proof -
  from assms(2) have found: "find (\<lambda>t. tp_ID t = tid) (topups s) = Some t"
    by (simp add: topup_of_def)
  show ?thesis
    using assms(1,3,4,5) found
    by (simp add: ConfirmTopup_def store_defs topup_of_def
          find_gorm_Update_same Let_def)
qed

text \<open>Whatever store calls fail, a top-up that is not pending is never confirmed.\<close>

lemma ConfirmTopup_settled:
  assumes "topup_of s tid = Some t" and "tp_Status t \<noteq> ''pending''"
  shows "fst (ConfirmTopup e tid s) \<noteq> None
       \<and> wallets (snd (ConfirmTopup e tid s)) = wallets s
       \<and> topups (snd (ConfirmTopup e tid s)) = topups s
       \<and> transactions (snd (ConfirmTopup e tid s)) = transactions s"
  using assms
  by (simp add: ConfirmTopup_def GetTopupByID_def gorm_First_def logger_Info_def topup_of_def Let_def)

lemma ConfirmTopup_topups:
  "topups (snd (ConfirmTopup e tid s)) = topups s
   \<or> (\<exists>t. topup_of s tid = Some t \<and> tp_Status t = ''pending''
        \<and> topups (snd (ConfirmTopup e tid s))
            = gorm_Update (\<lambda>t. tp_ID t = tid) (\<lambda>t. t\<lparr>tp_Status := ''completed''\<rparr>) (topups s))"
  by (auto simp: ConfirmTopup_def store_defs topup_of_def Let_def
           split: sum.splits option.splits prod.splits if_splits)

lemma CreateTopup_topups:
  "topups (snd (CreateTopup e u q s)) = topups s
   \<or> (\<exists>t. topups (snd (CreateTopup e u q s)) = topups s @ [t])"
  by (auto simp: CreateTopup_def store_defs Let_def
           split: sum.splits option.splits prod.splits if_splits)

lemma apply_voucher_topups:
  "apply_voucher_if_provided e req p s = (r, s') \<Longrightarrow> topups s' = topups s"
  by (auto simp: apply_voucher_if_provided_def store_defs Let_def
           split: sum.splits option.splits prod.splits if_splits)

lemma pay_and_record_topups:
  "pay_and_record e c req room p v s = (r, s') \<Longrightarrow> topups s' = topups s"
  by (auto simp: pay_and_record_def store_defs Let_def
           split: sum.splits option.splits prod.splits if_splits)

lemma GetMeetingRoomByID_topups:
  "GetMeetingRoomByID e i s = (r, s') \<Longrightarrow> topups s' = topups s"
  by (auto simp: GetMeetingRoomByID_def logger_Info_def Let_def split: if_splits)

lemma CheckRoomAvailability_topups:
  "CheckRoomAvailability e i st en s = (r, s') \<Longrightarrow> topups s' = topups s"
  by (auto simp: CheckRoomAvailability_def logger_Info_def Let_def split: if_splits)

lemma CreateBooking_topups:
  "topups (snd (CreateBooking e c req s)) = topups s"
proof -
  let ?s = "logger_Info ''CreateBooking usecase called'' s"
  have t0: "topups ?s = topups s" by (simp add: logger_Info_def)
  obtain r s' where res: "CreateBooking e c req s = (r, s')" by force
  from res t0 have "topups s' = topups s"
    apply (simp add: CreateBooking_def Let_def split: if_splits prod.splits sum.splits)
    apply (auto dest!: GetMeetingRoomByID_topups CheckRoomAvailability_topups
                       apply_voucher_topups pay_and_record_topups)
    done
  with res show ?thesis by simp
qed

lemma other_topups:
  "topups (snd (CancelBooking e c b s)) = topups s"
  "topups (snd (ApplyVoucher e a s)) = topups s"
  by (auto simp: CancelBooking_def ApplyVoucher_def store_defs Let_def
           split: sum.splits option.splits prod.splits if_splits)

lemma handle_settled_topup:
  assumes "topup_of s tid = Some t" and "tp_Status t \<noteq> ''pending''"
  shows "topup_of (handle q s) tid = Some t"
proof (cases q)
  case (Req_CreateTopup e u r)
  with CreateTopup_topups[of e u r s] assms(1) show ?thesis
    by (auto simp: topup_of_def find_append_Some)
next
  case (Req_ConfirmTopup e tid')
  from ConfirmTopup_topups[of e tid' s] show ?thesis
  proof
    assume "topups (snd (ConfirmTopup e tid' s)) = topups s"
    with Req_ConfirmTopup assms(1) show ?thesis by (simp add: topup_of_def)
  next
    assume "\<exists>t'. topup_of s tid' = Some t' \<and> tp_Status t' = ''pending''
        \<and> topups (snd (ConfirmTopup e tid' s))
            = gorm_Update (\<lambda>t. tp_ID t = tid') (\<lambda>t. t\<lparr>tp_Status := ''completed''\<rparr>) (topups s)"
    then obtain t' where t': "topup_of s tid' = Some t'" "tp_Status t' = ''pending''"
      and upd: "topups (snd (ConfirmTopup e tid' s))
            = gorm_Update (\<lambda>t. tp_ID t = tid') (\<lambda>t. t\<lparr>tp_Status := ''completed''\<rparr>) (topups s)"
      by blast
    from t' assms have "tid' \<noteq> tid" by auto
    moreover from assms(1) have "tp_ID t = tid"
      by (auto simp: topup_of_def dest: find_SomeD)
    ultimately show ?thesis
      using Req_ConfirmTopup upd assms(1)
      by (simp add: topup_of_def find_gorm_Update)
  qed
qed (use assms(1) in \<open>simp_all add: topup_of_def CreateBooking_topups other_topups\<close>)

lemma serve_settled_topup:
  "topup_of s tid = Some t \<Longrightarrow> tp_Status t \<noteq> ''pending'' \<Longrightarrow> topup_of (serve qs s) tid = Some t"
  by (induction qs arbitrary: s) (simp_all add: handle_settled_topup)

text \<open>C7, as amended. For a pending top-up, when the lookup, the update of the status and
  the credit of the wallet succeed, \<^verbatim>\<open>ConfirmTopup\<close> returns no error, the top-up reads as
  completed, the balance of its user has gone up by exactly its amount, and a Transaction with
  service 2 and that amount has been appended to the ledger when the insertion into the ledger
  succeeded; when that insertion failed, which is only logged, the ledger is unchanged. A
  completed top-up stays as it is through every sequence of requests (no request moves it back),
  and every later \<^verbatim>\<open>ConfirmTopup\<close> on it whose lookup succeeds fails with \<open>NotPending\<close> and
  changes no table: no wallet is credited twice.\<close>

theorem ConfirmTopup_at_most_once:
  assumes "topup_of s topupID = Some t"
  shows "(tp_Status t = ''pending'' \<and> \<not> fails e Call_GetTopupByID
            \<and> \<not> fails e Call_UpdateTopupStatus \<and> \<not> fails e Call_UpdateBalance \<longrightarrow>
            fst (ConfirmTopup e topupID s) = None
          \<and> topup_of (snd (ConfirmTopup e topupID s)) topupID
              = Some (t\<lparr>tp_Status := ''completed''\<rparr>)
          \<and> (\<forall>w. balance_of s (tp_UserID t) = Some w \<longrightarrow>
                balance_of (snd (ConfirmTopup e topupID s)) (tp_UserID t)
                  = Some (w + tp_Amount t))
          \<and> transactions (snd (ConfirmTopup e topupID s)) =
              (if fails e Call_CreateTransaction then transactions s
               else transactions s @
                 [\<lparr>tx_ID = uuid_New e 0, tx_UserID = tp_UserID t, tx_ServiceID = 2,
                   tx_ServiceRefID = tp_ID t, tx_Amount = tp_Amount t,
                   tx_PaidAt = time_Now e 0, tx_Status = ''completed''\<rparr>]))
       \<and> (tp_Status t = ''completed'' \<longrightarrow>
            (\<forall>qs. topup_of (serve qs s) topupID = Some t)
          \<and> (\<forall>qs e'. \<not> fails e' Call_GetTopupByID \<longrightarrow>
                ConfirmTopup e' topupID (serve qs s) =
                  (Some NotPending,
                   (serve qs s)\<lparr>logs := logs (serve qs s) @
                      [''ConfirmTopup usecase called'',
                       ''GetTopupByID repository method called'']\<rparr>)))"
proof -
  have first: "fst (ConfirmTopup e topupID s) = None
          \<and> topup_of (snd (ConfirmTopup e topupID s)) topupID
              = Some (t\<lparr>tp_Status := ''completed''\<rparr>)
          \<and> (\<forall>w. balance_of s (tp_UserID t) = Some w \<longrightarrow>
                balance_of (snd (ConfirmTopup e topupID s)) (tp_UserID t)
                  = Some (w + tp_Amount t))
          \<and> transactions (snd (ConfirmTopup e topupID s)) =
              (if fails e Call_CreateTransaction then transactions s
               else transactions s @
                 [\<lparr>tx_ID = uuid_New e 0, tx_UserID = tp_UserID t, tx_ServiceID = 2,
                   tx_ServiceRefID = tp_ID t, tx_Amount = tp_Amount t,
                   tx_PaidAt = time_Now e 0, tx_Status = ''completed''\<rparr>])"
    if "tp_Status t = ''pending''" "\<not> fails e Call_GetTopupByID"
       "\<not> fails e Call_UpdateTopupStatus" "\<not> fails e Call_UpdateBalance"
    using ConfirmTopup_pending[OF that(2) assms that(1) that(3) that(4)] by simp
  have stays: "topup_of (serve qs s) topupID = Some t" if "tp_Status t = ''completed''" for qs
    using serve_settled_topup[OF assms] that by simp
  have again: "ConfirmTopup e' topupID (serve qs s) =
          (Some NotPending,
           (serve qs s)\<lparr>logs := logs (serve qs s) @
              [''ConfirmTopup usecase called'', ''GetTopupByID repository method called'']\<rparr>)"
    if "tp_Status t = ''completed''" "\<not> fails e' Call_GetTopupByID" for qs e'
    using ConfirmTopup_not_pending[OF that(2) stays[OF that(1)]] that(1) by simp
  from first stays again show ?thesis by blast
qed

theorem ConfirmTopup_at_most_once_witness:
  "topup_of ex_world 40 = Some ex_topup
   \<and> tp_Status ex_topup = ''pending''
   \<and> fst (ConfirmTopup ex_env 40 ex_world) = None
   \<and> topup_of (snd (ConfirmTopup ex_env 40 ex_world)) 40 = Some (ex_topup\<lparr>tp_Status := ''completed''\<rparr>)
   \<and> balance_of ex_world 7 = Some 50
   \<and> balance_of (snd (ConfirmTopup ex_env 40 ex_world)) 7 = Some 75
   \<and> transactions (snd (ConfirmTopup ex_env 40 ex_world)) =
        [\<lparr>tx_ID = 100, tx_UserID = 7, tx_ServiceID = 2, tx_ServiceRefID = 40,
          tx_Amount = 25, tx_PaidAt = 8 * Hour, tx_Status = ''completed''\<rparr>]
   \<and> topup_of ex_world_confirmed 40 = Some (ex_topup\<lparr>tp_Status := ''completed''\<rparr>)
   \<and> ConfirmTopup ex_env 40 (serve [] ex_world_confirmed) =
        (Some NotPending,
         ex_world_confirmed\<lparr>logs := logs ex_world_confirmed @
            [''ConfirmTopup usecase called'', ''GetTopupByID repository method called'']\<rparr>)
   \<and> topup_of (serve [Req_ConfirmTopup ex_env 40, Req_CreateTopup ex_env 7
                          \<lparr>rq_Amount = 5, rq_Method = ''card''\<rparr>] ex_world_confirmed) 40
        = Some (ex_topup\<lparr>tp_Status := ''completed''\<rparr>)"
proof -
  have env: "\<not> fails ex_env Call_GetTopupByID" "\<not> fails ex_env Call_UpdateTopupStatus"
    "\<not> fails ex_env Call_UpdateBalance" "\<not> fails ex_env Call_CreateTransaction"
    "uuid_New ex_env 0 = 100" "time_Now ex_env 0 = 8 * Hour"
    by (simp_all add: ex_defs)
  have rows: "topup_of ex_world 40 = Some ex_topup"
    "topup_of ex_world_confirmed 40 = Some (ex_topup\<lparr>tp_Status := ''completed''\<rparr>)"
    "balance_of ex_world 7 = Some 50" "transactions ex_world = []"
    by (simp_all add: topup_of_def balance_of_def ex_defs)
  have row: "tp_Status ex_topup = ''pending''" "tp_UserID ex_topup = 7" "tp_ID ex_topup = 40"
    "tp_Amount ex_topup = 25"
    by (simp_all add: ex_defs)
  from ConfirmTopup_at_most_once[OF rows(1), of ex_env]
       ConfirmTopup_at_most_once[OF rows(2), of ex_env]
       env rows row
  show ?thesis by (simp del: serve.simps) simp
qed

text \<open>C7 as stated fails where the insertion into the ledger fails: the top-up goes from
  pending to completed, the call succeeds, and no Transaction has been appended.\<close>

theorem confirmation_without_ledger_entry:
  "topup_of ex_world 40 = Some ex_topup
   \<and> tp_Status ex_topup = ''pending''
   \<and> fst (ConfirmTopup ex_env_ledger_down 40 ex_world) = None
   \<and> topup_of (snd (ConfirmTopup ex_env_ledger_down 40 ex_world)) 40
       = Some (ex_topup\<lparr>tp_Status := ''completed''\<rparr>)
   \<and> transactions (snd (ConfirmTopup ex_env_ledger_down 40 ex_world)) = transactions ex_world"
  by (simp add: ex_defs topup_of_def ConfirmTopup_def repo_defs)

subsection \<open>A confirmation whose credit fails\<close>

text \<open>C10. \<^verbatim>\<open>ConfirmTopup\<close> sets the status before it credits the wallet. On a pending
  top-up, when the lookup and the update of the status succeed and the credit of the wallet
  fails, it returns an error ("failed to update wallet balance"), yet the table of top-ups has
  changed: the top-up reads as completed, while no wallet and no Transaction has changed.
  From then on, after any sequence of requests, every \<^verbatim>\<open>ConfirmTopup\<close> on that top-up returns
  an error, \<open>NotPending\<close> when its lookup succeeds, and changes neither wallets nor ledger: the
  amount is never credited.\<close>

theorem ConfirmTopup_credit_failure:
  assumes "topup_of s topupID = Some t" and "tp_Status t = ''pending''"
    and "\<not> fails e Call_GetTopupByID" and "\<not> fails e Call_UpdateTopupStatus"
    and "fails e Call_UpdateBalance"
  shows "fst (ConfirmTopup e topupID s) = Some CreditFailed
       \<and> topup_of (snd (ConfirmTopup e topupID s)) topupID = Some (t\<lparr>tp_Status := ''completed''\<rparr>)
       \<and> topups (snd (ConfirmTopup e topupID s)) \<noteq> topups s
       \<and> wallets (snd (ConfirmTopup e topupID s)) = wallets s
       \<and> transactions (snd (ConfirmTopup e topupID s)) = transactions s
       \<and> (\<forall>qs e'.
            fst (ConfirmTopup e' topupID (serve qs (snd (ConfirmTopup e topupID s)))) \<noteq> None
          \<and> wallets (snd (ConfirmTopup e' topupID (serve qs (snd (ConfirmTopup e topupID s)))))
              = wallets (serve qs (snd (ConfirmTopup e topupID s)))
          \<and> transactions (snd (ConfirmTopup e' topupID (serve qs (snd (ConfirmTopup e topupID s)))))
              = transactions (serve qs (snd (ConfirmTopup e topupID s)))
          \<and> (\<not> fails e' Call_GetTopupByID \<longrightarrow>
               fst (ConfirmTopup e' topupID (serve qs (snd (ConfirmTopup e topupID s))))
                 = Some NotPending))"
proof -
  let ?s' = "snd (ConfirmTopup e topupID s)"
  let ?t' = "t\<lparr>tp_Status := ''completed''\<rparr>"
  note F = ConfirmTopup_credit_fails[OF assms(3) assms(1) assms(2) assms(4) assms(5)]
  then have t': "topup_of ?s' topupID = Some ?t'" by simp
  have np: "tp_Status ?t' \<noteq> ''pending''" by simp
  from assms(2) have "tp_Status ?t' \<noteq> tp_Status t" by simp
  then have "?t' \<noteq> t" by metis
  with t' assms(1) have changed: "topups ?s' \<noteq> topups s"
    by (auto simp: topup_of_def)
  have later: "fst (ConfirmTopup e' topupID (serve qs ?s')) \<noteq> None
          \<and> wallets (snd (ConfirmTopup e' topupID (serve qs ?s'))) = wallets (serve qs ?s')
          \<and> transactions (snd (ConfirmTopup e' topupID (serve qs ?s'))) = transactions (serve qs ?s')
          \<and> (\<not> fails e' Call_GetTopupByID \<longrightarrow>
               fst (ConfirmTopup e' topupID (serve qs ?s')) = Some NotPending)" for qs e'
    using ConfirmTopup_settled[OF serve_settled_topup[OF t' np, of qs] np, of e']
          ConfirmTopup_not_pending[OF _ serve_settled_topup[OF t' np, of qs] np, of e']
    by simp
  from F changed later show ?thesis by blast
qed


theorem ConfirmTopup_credit_failure_witness:
  "topup_of ex_world 40 = Some ex_topup
   \<and> tp_Status ex_topup = ''pending''
   \<and> \<not> fails ex_env_credit_down Call_GetTopupByID
   \<and> \<not> fails ex_env_credit_down Call_UpdateTopupStatus
   \<and> fails ex_env_credit_down Call_UpdateBalance
   \<and> fst (ConfirmTopup ex_env_credit_down 40 ex_world) = Some CreditFailed
   \<and> topup_of (snd (ConfirmTopup ex_env_credit_down 40 ex_world)) 40
       = Some (ex_topup\<lparr>tp_Status := ''completed''\<rparr>)
   \<and> wallets (snd (ConfirmTopup ex_env_credit_down 40 ex_world)) = [\<lparr>w_UserID = 7, w_Balance = 50\<rparr>]
   \<and> transactions (snd (ConfirmTopup ex_env_credit_down 40 ex_world)) = []
   \<and> fst (ConfirmTopup ex_env 40 (serve [] (snd (ConfirmTopup ex_env_credit_down 40 ex_world))))
       = Some NotPending
   \<and> wallets (snd (ConfirmTopup ex_env 40 (serve [] (snd (ConfirmTopup ex_env_credit_down 40 ex_world)))))
       = [\<lparr>w_UserID = 7, w_Balance = 50\<rparr>]"
proof -
  have h: "topup_of ex_world 40 = Some ex_topup" "tp_Status ex_topup = ''pending''"
    "\<not> fails ex_env_credit_down Call_GetTopupByID"
    "\<not> fails ex_env_credit_down Call_UpdateTopupStatus"
    "fails ex_env_credit_down Call_UpdateBalance"
    by (simp_all add: topup_of_def ex_defs)
  have more: "\<not> fails ex_env Call_GetTopupByID" "wallets ex_world = [\<lparr>w_UserID = 7, w_Balance = 50\<rparr>]"
    "transactions ex_world = []"
    by (simp_all add: ex_defs)
  from ConfirmTopup_credit_failure[OF h] h more
  show ?thesis by (simp del: serve.simps) simp
qed

end
